theory Spec2Isabelle
  imports Complex_Main
begin

section \<open>Records of the dashboard\<close>

text \<open>
  A record of the dashboard is a Python dict. The layout engines read the keys
  \<^verbatim>\<open>Company\<close>, \<^verbatim>\<open>Valuation ($B)\<close>, \<^verbatim>\<open>AI Impact Score\<close> and \<^verbatim>\<open>Growth Rate (%)\<close>; the
  synthetic generator writes six more. A key that is absent from the dict is \<open>None\<close>.
  Python floats are idealised as reals; the literal \<^verbatim>\<open>1e-9\<close> is \<open>1 / 10 ^ 9\<close>.
\<close>

record rec =
  Company :: "string option"
  Valuation :: "real option"
  AI_Impact_Score :: "real option"
  Growth_Rate :: "real option"
  Sector :: "string option"
  Founded_Year :: "int option"
  Country :: "string option"
  Status :: "string option"
  longitude :: "real option"
  latitude :: "real option"

section \<open>Synthetic generator (utils/data\_sources.py)\<close>

definition sectors :: "string list" where
  "sectors = [''Fintech'', ''Healthtech'', ''AI/ML'', ''E-commerce'', ''SaaS'', ''Edtech'',
     ''Gaming'', ''Aerospace'', ''Cybersecurity'', ''Biotech'', ''Cleantech'',
     ''Mobility'', ''Foodtech'', ''Proptech'', ''Adtech'', ''Logistics'']"

definition countries :: "string list" where
  "countries = [''USA'', ''China'', ''India'', ''UK'', ''Germany'', ''Israel'', ''Canada'',
     ''Sweden'', ''Singapore'', ''Australia'', ''France'', ''Netherlands'', ''South Korea'']"

definition statuses :: "string list" where
  "statuses = [''Unicorn'', ''Soonicorn'', ''Decacorn'', ''Hectocorn'']"

text \<open>
  The draws of Python's \<^verbatim>\<open>random\<close> module that one loop iteration consumes, in the order
  of the source: three \<^verbatim>\<open>random.choice\<close> indices, the three sector-conditioned uniform
  draws, the correlation factor, the impact jitter, the founding year, longitude and
  latitude. A uniform draw is recorded as the underlying \<^verbatim>\<open>random()\<close> value \<open>u\<close> with
  \<open>0 \<le> u < 1\<close>; \<^verbatim>\<open>random.uniform(a, b)\<close> is \<open>a + (b - a) * u\<close>.
\<close>

record draws =
  d_sector :: nat
  d_country :: nat
  d_status :: nat
  d_valuation :: real
  d_impact :: real
  d_growth :: real
  d_corr :: real
  d_jitter :: real
  d_year :: int
  d_lon :: real
  d_lat :: real

definition uniform :: "real \<Rightarrow> real \<Rightarrow> real \<Rightarrow> real" where
  "uniform a b u = a + (b - a) * u"



fun str_nat :: "nat \<Rightarrow> string" where
  "str_nat n =
     (if n < 10 then [char_of (48 + n)]
      else str_nat (n div 10) @ [char_of (48 + n mod 10)])"

declare str_nat.simps [simp del]

text \<open>The sector-conditioned bases: (valuation\_base, ai\_impact\_base, growth\_base).\<close>

definition sector_bases :: "string \<Rightarrow> draws \<Rightarrow> real \<times> real \<times> real" where
  "sector_bases sector d =
     (if sector = ''AI/ML'' then
        (uniform 1 300 (d_valuation d), uniform 70 95 (d_impact d), uniform 200 2000 (d_growth d))
      else if sector = ''Fintech'' then
        (uniform 1 150 (d_valuation d), uniform 40 80 (d_impact d), uniform 100 800 (d_growth d))
      else if sector = ''Healthtech'' \<or> sector = ''Biotech'' then
        (uniform (1/2) 100 (d_valuation d), uniform 60 90 (d_impact d), uniform 80 500 (d_growth d))
      else if sector = ''E-commerce'' then
        (uniform 1 200 (d_valuation d), uniform 30 70 (d_impact d), uniform 150 1000 (d_growth d))
      else
        (uniform (1/2) 80 (d_valuation d), uniform 20 70 (d_impact d), uniform 50 400 (d_growth d)))"

text \<open>The status adjustment of \<^verbatim>\<open>valuation_base\<close>.\<close>

definition status_adjust :: "string \<Rightarrow> real \<Rightarrow> real" where
  "status_adjust status valuation_base =
     (if status = ''Decacorn'' then max 10 valuation_base
      else if status = ''Hectocorn'' then max 100 valuation_base
      else if status = ''Soonicorn'' then min 1 valuation_base
      else valuation_base)"

text \<open>One iteration of the loop: the dict appended for index \<open>i\<close>.\<close>

definition gen_record :: "nat \<Rightarrow> draws \<Rightarrow> rec" where
  "gen_record i d =
     (let sector = sectors ! d_sector d;
          country = countries ! d_country d;
          status = statuses ! d_status d;
          (valuation_base0, ai_impact_base, growth_base) = sector_bases sector d;
          valuation_base = status_adjust status valuation_base0;
          correlation_factor = uniform (8/10) (12/10) (d_corr d)
      in \<lparr> Company = Some (sector @ '' Startup '' @ str_nat (i + 1)),
           Valuation = Some (valuation_base * correlation_factor),
           AI_Impact_Score = Some (min 95 (max 1 (ai_impact_base + uniform (-10) 10 (d_jitter d)))),
           Growth_Rate = Some (growth_base * correlation_factor),
           Sector = Some sector,
           Founded_Year = Some (d_year d),
           Country = Some country,
           Status = Some status,
           longitude = Some (uniform (-180) 180 (d_lon d)),
           latitude = Some (uniform (-90) 90 (d_lat d)) \<rparr>)"

text \<open>
  \<^verbatim>\<open>generate_large_realistic_dataset(size)\<close>: the loop over \<^verbatim>\<open>range(size)\<close>; \<open>ds i\<close> are
  the draws of iteration \<open>i\<close>. Nothing in the loop body raises, so the \<^verbatim>\<open>except\<close> branch
  (a fall-back to the database loader) is not reached.
\<close>

definition generate_large_realistic_dataset :: "nat \<Rightarrow> (nat \<Rightarrow> draws) \<Rightarrow> rec list" where
  "generate_large_realistic_dataset sz ds = map (\<lambda>i. gen_record i (ds i)) [0..<sz]"

section \<open>Floats, data frames and figures\<close>

text \<open>
  A cell of a numeric column is a float: \<open>Some x\<close> for a number, \<open>None\<close> for NaN, which
  is what \<^verbatim>\<open>pd.DataFrame(data)\<close> stores for a record that lacks the column's key.
  Arithmetic propagates NaN; the square root of a negative number is NaN.
\<close>

type_synonym float = "real option"

definition lift1 :: "(real \<Rightarrow> real) \<Rightarrow> float \<Rightarrow> float" where
  "lift1 f a = (case a of None \<Rightarrow> None | Some x \<Rightarrow> Some (f x))"

definition lift2 :: "(real \<Rightarrow> real \<Rightarrow> real) \<Rightarrow> float \<Rightarrow> float \<Rightarrow> float" where
  "lift2 f a b =
     (case a of None \<Rightarrow> None
      | Some x \<Rightarrow> (case b of None \<Rightarrow> None | Some y \<Rightarrow> Some (f x y)))"

definition fadd :: "float \<Rightarrow> float \<Rightarrow> float" where
  "fadd = lift2 (+)"

definition fsub :: "float \<Rightarrow> float \<Rightarrow> float" where
  "fsub = lift2 (-)"

definition fmul :: "float \<Rightarrow> float \<Rightarrow> float" where
  "fmul = lift2 (*)"

text \<open>Elementwise division of numpy: no exception; a zero divisor gives inf or NaN,
  both written \<open>None\<close> here (no divisor of the modelled engines is zero).\<close>

definition fdiv :: "float \<Rightarrow> float \<Rightarrow> float" where
  "fdiv a b = (if b = Some 0 then None else lift2 (/) a b)"

definition fsqrt :: "float \<Rightarrow> float" where
  "fsqrt a = (case a of None \<Rightarrow> None | Some x \<Rightarrow> if x < 0 then None else Some (sqrt x))"

definition fsin :: "float \<Rightarrow> float" where
  "fsin = lift1 sin"

definition fcos :: "float \<Rightarrow> float" where
  "fcos = lift1 cos"

text \<open>\<^verbatim>\<open>np.clip(a, lo, hi)\<close>, which is \<^verbatim>\<open>minimum(maximum(a, lo), hi)\<close>; NaN stays NaN.\<close>

definition fclip :: "real \<Rightarrow> real \<Rightarrow> float \<Rightarrow> float" where
  "fclip lo hi = lift1 (\<lambda>x. min (max x lo) hi)"

definition finite_cells :: "float list \<Rightarrow> real list" where
  "finite_cells xs = concat (map (\<lambda>c. case c of None \<Rightarrow> [] | Some x \<Rightarrow> [x]) xs)"

text \<open>\<^verbatim>\<open>Series.min()\<close> and \<^verbatim>\<open>Series.max()\<close> skip NaN and are NaN on a column without numbers.\<close>

definition col_min :: "float list \<Rightarrow> float" where
  "col_min xs = (case finite_cells xs of [] \<Rightarrow> None | y # ys \<Rightarrow> Some (fold min ys y))"

definition col_max :: "float list \<Rightarrow> float" where
  "col_max xs = (case finite_cells xs of [] \<Rightarrow> None | y # ys \<Rightarrow> Some (fold max ys y))"

text \<open>\<^verbatim>\<open>np.linspace(a, b, n)\<close>: \<open>n\<close> evenly spaced samples, \<open>[a]\<close> when \<open>n = 1\<close>.\<close>

definition linspace :: "float \<Rightarrow> float \<Rightarrow> nat \<Rightarrow> float list" where
  "linspace a b n =
     map (\<lambda>i. if n = 1 then a
              else fadd a (fmul (Some (real i)) (fdiv (fsub b a) (Some (real (n - 1))))))
         [0..<n]"

text \<open>
  A data frame: the column names and the rows, each with its index label. A freshly
  built frame labels the rows \<open>0, 1, \<dots>\<close>; a column exists as soon as one record has
  its key.
\<close>

record frame =
  columns :: "string list"
  rows :: "(nat \<times> rec) list"

definition rec_keys :: "rec \<Rightarrow> string list" where
  "rec_keys r =
     (if Company r = None then [] else [''Company'']) @
     (if Valuation r = None then [] else [''Valuation ($B)'']) @
     (if AI_Impact_Score r = None then [] else [''AI Impact Score'']) @
     (if Growth_Rate r = None then [] else [''Growth Rate (%)'']) @
     (if Sector r = None then [] else [''Sector'']) @
     (if Founded_Year r = None then [] else [''Founded Year'']) @
     (if Country r = None then [] else [''Country'']) @
     (if Status r = None then [] else [''Status'']) @
     (if longitude r = None then [] else [''longitude'']) @
     (if latitude r = None then [] else [''latitude''])"

definition DataFrame :: "rec list \<Rightarrow> frame" where
  "DataFrame data =
     \<lparr> columns = remdups (concat (map rec_keys data)),
       rows = zip [0..<length data] data \<rparr>"

definition nrows :: "frame \<Rightarrow> nat" where
  "nrows df = length (rows df)"

definition has_column :: "string \<Rightarrow> frame \<Rightarrow> bool" where
  "has_column c df = (c \<in> set (columns df))"

definition column :: "(rec \<Rightarrow> 'a) \<Rightarrow> frame \<Rightarrow> 'a list" where
  "column f df = map (\<lambda>(i, r). f r) (rows df)"

text \<open>
  The library behind the engines, none of it part of the repository, is a parameter:
  \<^item> \<open>sample_idx n k\<close>: the row positions that \<^verbatim>\<open>df.sample(n=k, random_state=42)\<close> takes
    from a frame of \<open>n\<close> rows, in the order in which the sample lists them (a fresh
    generator seeded with 42 draws them, so they depend on \<open>n\<close> and \<open>k\<close> only);
  \<^item> \<open>argsort keys\<close>: the row positions in the order of \<^verbatim>\<open>sort_values\<close> on that column;
  \<^item> \<open>np_uniform lo hi n g\<close>: \<^verbatim>\<open>np.random.uniform(lo, hi, n)\<close> on the global generator
    state \<open>g\<close>, with the state it leaves; \<open>np_seed s\<close>: the state after
    \<^verbatim>\<open>np.random.seed(s)\<close>;
  \<^item> \<open>griddata points values grid\<close>: \<^verbatim>\<open>scipy.interpolate.griddata(\<dots>, method='cubic')\<close>,
    which returns the interpolated grid (NaN outside the convex hull) or raises.
\<close>

datatype error = ValueError string | LibraryError string

record 'g env =
  sample_idx :: "nat \<Rightarrow> nat \<Rightarrow> nat list"
  argsort :: "float list \<Rightarrow> nat list"
  np_uniform :: "float \<Rightarrow> float \<Rightarrow> nat \<Rightarrow> 'g \<Rightarrow> float list \<times> 'g"
  np_seed :: "nat \<Rightarrow> 'g"
  griddata :: "(float \<times> float) list \<Rightarrow> float list \<Rightarrow> (float \<times> float) list list
                 \<Rightarrow> error + float list list"

text \<open>\<^verbatim>\<open>df.sample(n=k, random_state=42)\<close>: the sampled rows keep their index labels.\<close>

definition sample :: "'g env \<Rightarrow> nat \<Rightarrow> frame \<Rightarrow> frame" where
  "sample e k df = df \<lparr> rows := map (\<lambda>i. rows df ! i) (sample_idx e (nrows df) k) \<rparr>"

text \<open>The block every engine opens with: sample down to the cap when the frame is larger.\<close>

definition downsample :: "'g env \<Rightarrow> nat \<Rightarrow> frame \<Rightarrow> frame" where
  "downsample e cap df = (if nrows df > cap then sample e cap df else df)"

text \<open>Column assignment \<^verbatim>\<open>df[c] = values\<close> is by position.\<close>

definition set_column :: "string \<Rightarrow> (rec \<Rightarrow> 'a \<Rightarrow> rec) \<Rightarrow> 'a list \<Rightarrow> frame \<Rightarrow> frame" where
  "set_column c upd vs df =
     \<lparr> columns = (if c \<in> set (columns df) then columns df else columns df @ [c]),
       rows = map (\<lambda>((i, r), v). (i, upd r v)) (zip (rows df) vs) \<rparr>"

text \<open>The three fall-backs \<^verbatim>\<open>if c not in df.columns: df[c] = np.random.uniform(lo, hi, len(df))\<close>.\<close>

definition ensure_growth :: "'g env \<Rightarrow> frame \<times> 'g \<Rightarrow> frame \<times> 'g" where
  "ensure_growth e = (\<lambda>(df, g).
     if \<not> has_column ''Growth Rate (%)'' df then
       (let (vs, g') = np_uniform e (Some 50) (Some 200) (nrows df) g
        in (set_column ''Growth Rate (%)'' (\<lambda>r v. r \<lparr> Growth_Rate := v \<rparr>) vs df, g'))
     else (df, g))"

definition ensure_valuation :: "'g env \<Rightarrow> frame \<times> 'g \<Rightarrow> frame \<times> 'g" where
  "ensure_valuation e = (\<lambda>(df, g).
     if \<not> has_column ''Valuation ($B)'' df then
       (let (vs, g') = np_uniform e (Some 1) (Some 50) (nrows df) g
        in (set_column ''Valuation ($B)'' (\<lambda>r v. r \<lparr> Valuation := v \<rparr>) vs df, g'))
     else (df, g))"

definition ensure_impact :: "'g env \<Rightarrow> frame \<times> 'g \<Rightarrow> frame \<times> 'g" where
  "ensure_impact e = (\<lambda>(df, g).
     if \<not> has_column ''AI Impact Score'' df then
       (let (vs, g') = np_uniform e (Some 20) (Some 90) (nrows df) g
        in (set_column ''AI Impact Score'' (\<lambda>r v. r \<lparr> AI_Impact_Score := v \<rparr>) vs df, g'))
     else (df, g))"

text \<open>
  Formatted text is kept as its pieces: literal text, a text cell (NaN when the record
  lacks the key), a float printed by \<^verbatim>\<open>{}\<close> and a float printed by \<^verbatim>\<open>{:.1f}\<close>.
\<close>

datatype frag = Lit string | Cell "string option" | Num float | Num1 float

text \<open>\<^verbatim>\<open>row.get('Company', f'Company {i}')\<close>: the default applies only when the frame has
  no such column.\<close>

definition company_of :: "frame \<Rightarrow> nat \<Rightarrow> rec \<Rightarrow> frag" where
  "company_of df i r =
     (if has_column ''Company'' df then Cell (Company r)
      else Cell (Some (''Company '' @ str_nat i)))"

definition hover :: "frame \<Rightarrow> nat \<Rightarrow> rec \<Rightarrow> frag list" where
  "hover df i r =
     [Lit ''<b>'', company_of df i r, Lit ''</b><br>Valuation: $'', Num (Valuation r),
      Lit ''B<br>AI Impact Score: '', Num (AI_Impact_Score r),
      Lit ''<br>Growth Rate: '', Num (Growth_Rate r), Lit ''%'']"

text \<open>The list comprehension over \<^verbatim>\<open>enumerate(df.iterrows())\<close>: \<open>i\<close> is the position.\<close>

definition hover_texts :: "frame \<Rightarrow> frag list list" where
  "hover_texts df = map (\<lambda>(i, (lbl, r)). hover df i r) (zip [0..<nrows df] (rows df))"

text \<open>
  A figure: its traces, its animation frames (each a list of traces) and its title.
  Of a scatter trace the coordinates, mode, marker size and colour, \<^verbatim>\<open>text\<close>, \<^verbatim>\<open>hovertext\<close>
  and name are kept, of a surface the coordinates and name;
  the constant styling (colour scales, camera, backgrounds) is left out.
\<close>

datatype style = Unset | Scalar real | Series "float list" | Colour string

datatype coords = Vec "float list" | Grid "float list list"

datatype trace =
    Scatter3d "float list" "float list" "float list" string style style
      "frag list list" "frag list list" string
  | Surface coords coords "float list list" string

record figure =
  traces :: "trace list"
  frames :: "trace list list"
  title :: string

text \<open>The figure every \<^verbatim>\<open>except Exception\<close> handler builds.\<close>

definition error_figure :: "string \<Rightarrow> figure" where
  "error_figure t =
     \<lparr> traces = [Scatter3d [Some 0] [Some 0] [Some 0] ''markers'' Unset Unset [] [] []],
       frames = [], title = t \<rparr>"

definition try_except :: "string \<Rightarrow> (error + figure) \<times> 'g \<Rightarrow> figure \<times> 'g" where
  "try_except t = (\<lambda>(res, g). case res of Inl err \<Rightarrow> (error_figure t, g) | Inr fig \<Rightarrow> (fig, g))"

text \<open>\<^verbatim>\<open>(col - col.min()) / (col.max() - col.min() + 1e-9)\<close>.\<close>

definition normalise :: "float list \<Rightarrow> float list" where
  "normalise col =
     map (\<lambda>v. fdiv (fsub v (col_min col))
                    (fadd (fsub (col_max col) (col_min col)) (Some (1 / 10 ^ 9)))) col"

section \<open>Spiral tunnel (visualizations/spiral\_tunnel.py)\<close>

text \<open>The figure built from the frame once sampling and the fall-backs are done.\<close>

definition spiral_tunnel_figure :: "frame \<Rightarrow> figure" where
  "spiral_tunnel_figure df =
     (let growth_norm = normalise (column Growth_Rate df);
          num_points = nrows df;
          z = linspace (Some 0) (Some 100) num_points;
          theta = linspace (Some 0) (Some (6 * 2 * pi)) num_points;
          r = map (\<lambda>gn. fadd (Some 40) (fmul (Some 20) gn)) growth_norm;
          x = map (\<lambda>(r, t). fmul r (fcos t)) (zip r theta);
          y = map (\<lambda>(r, t). fmul r (fsin t)) (zip r theta)
      in \<lparr> traces = [Scatter3d x y z ''lines+markers'' (Scalar 7) (Series z)
                         (hover_texts df) [] ''Tunnel Trajectory''],
           frames = [],
           title = ''Unicorn Companies Tunnel Spiral Spectrum'' \<rparr>)"

definition spiral_tunnel_body :: "'g env \<Rightarrow> rec list \<Rightarrow> 'g \<Rightarrow> (error + figure) \<times> 'g" where
  "spiral_tunnel_body e data g =
     (if data = [] then (Inl (ValueError ''No data provided''), g)
      else
        let df0 = downsample e 1000 (DataFrame data);
            (df, g') = ensure_impact e (ensure_valuation e (ensure_growth e (df0, g)))
        in (Inr (spiral_tunnel_figure df), g'))"

definition create_spiral_tunnel_visualization :: "'g env \<Rightarrow> rec list \<Rightarrow> 'g \<Rightarrow> figure \<times> 'g" where
  "create_spiral_tunnel_visualization e data g =
     try_except ''Error in Spiral Tunnel Visualization'' (spiral_tunnel_body e data g)"

section \<open>Wave surface (visualizations/wave\_surface.py)\<close>

text \<open>\<^verbatim>\<open>np.meshgrid(xi, yi)\<close>: row \<open>j\<close> of \<open>XI\<close> is \<open>xi\<close>, row \<open>j\<close> of \<open>YI\<close> repeats \<open>yi[j]\<close>.\<close>

definition meshgrid :: "float list \<Rightarrow> float list \<Rightarrow> float list list \<times> float list list" where
  "meshgrid xi yi = (map (\<lambda>y. xi) yi, map (\<lambda>y. map (\<lambda>x. y) xi) yi)"

text \<open>\<^verbatim>\<open>np.nanmean\<close> of a grid: the mean of its numbers, NaN when it has none.\<close>

definition nanmean :: "float list list \<Rightarrow> float" where
  "nanmean zs =
     (case finite_cells (concat zs) of [] \<Rightarrow> None
      | y # ys \<Rightarrow> Some (sum_list (y # ys) / real (length (y # ys))))"

definition fill_nan :: "float \<Rightarrow> float list list \<Rightarrow> float list list" where
  "fill_nan m zs = map (map (\<lambda>c. case c of None \<Rightarrow> m | Some v \<Rightarrow> Some v)) zs"

text \<open>\<^verbatim>\<open>ZI + 1.5 * (np.sin(0.2 * XI) + np.cos(0.1 * YI))\<close> at one node.\<close>

definition wave_effect :: "float \<Rightarrow> float \<times> float \<Rightarrow> float" where
  "wave_effect zi = (\<lambda>(x, y).
     fadd zi (fmul (Some (15/10))
                   (fadd (fsin (fmul (Some (2/10)) x)) (fcos (fmul (Some (1/10)) y)))))"

text \<open>The wave effect added to every node of the interpolated grid.\<close>

definition add_wave_effect :: "float list list \<Rightarrow> (float \<times> float) list list \<Rightarrow> float list list" where
  "add_wave_effect ZI nodes =
     map (\<lambda>(zs, ps). map (\<lambda>(zi, p). wave_effect zi p) (zip zs ps)) (zip ZI nodes)"

text \<open>The 100 by 100 mesh over the ranges of growth rate (X) and valuation (Y), and the
  nodes \<^verbatim>\<open>(XI, YI)\<close> handed to the interpolation.\<close>

definition wave_grid :: "frame \<Rightarrow> float list list \<times> float list list" where
  "wave_grid df =
     (let growth = column Growth_Rate df;
          valuation = column Valuation df;
          xi = linspace (col_min growth) (col_max growth) 100;
          yi = linspace (col_min valuation) (col_max valuation) 100
      in meshgrid xi yi)"

definition grid_nodes :: "float list list \<Rightarrow> float list list \<Rightarrow> (float \<times> float) list list" where
  "grid_nodes XI YI = map (\<lambda>(xs, ys). zip xs ys) (zip XI YI)"

definition wave_surface_figure :: "'g env \<Rightarrow> frame \<Rightarrow> error + figure" where
  "wave_surface_figure e df =
     (let growth = column Growth_Rate df;
          valuation = column Valuation df;
          impact = column AI_Impact_Score df;
          growth_norm = normalise growth;
          (XI, YI) = wave_grid df;
          nodes = grid_nodes XI YI
      in case griddata e (zip growth valuation) impact nodes of
           Inl err \<Rightarrow> Inl err
         | Inr ZI \<Rightarrow>
             let ZI_wave_effect = add_wave_effect ZI nodes;
                 filled = fill_nan (nanmean ZI_wave_effect) ZI_wave_effect
             in Inr \<lparr> traces =
                        [Surface (Grid XI) (Grid YI) filled ''AI Impact Surface'',
                         Scatter3d growth valuation (map (\<lambda>v. fadd v (Some (1/2))) impact)
                           ''markers+text''
                           (Series (map (\<lambda>gn. fadd (Some 8) (fmul (Some 12) gn)) growth_norm))
                           (Series impact)
                           (map (\<lambda>(i, (lbl, r)). [company_of df i r])
                                (zip [0..<nrows df] (rows df)))
                           (hover_texts df)
                           ''Unicorn Companies''],
                      frames = [],
                      title = ''Unicorn Wave: Growth, Valuation & AI Impact'' \<rparr>)"

definition wave_surface_body :: "'g env \<Rightarrow> rec list \<Rightarrow> 'g \<Rightarrow> (error + figure) \<times> 'g" where
  "wave_surface_body e data g =
     (if data = [] then (Inl (ValueError ''No data provided''), g)
      else
        let df0 = downsample e 1500 (DataFrame data);
            (df, g') = ensure_impact e (ensure_valuation e (ensure_growth e (df0, g)))
        in (wave_surface_figure e df, g'))"

definition create_wave_surface_visualization :: "'g env \<Rightarrow> rec list \<Rightarrow> 'g \<Rightarrow> figure \<times> 'g" where
  "create_wave_surface_visualization e data g =
     try_except ''Error in Wave Surface Visualization'' (wave_surface_body e data g)"

section \<open>Ripple bubbles (visualizations/ripple\_bubbles.py)\<close>

text \<open>
  The z of the bubble with index label \<open>i\<close> in animation frame \<open>frame\<close>:
  \<^verbatim>\<open>0.5 + 0.4 * np.sin(2 * np.pi * frame / num_frames + i * 0.2)\<close> with 60 frames.
\<close>

definition ripple_arg :: "nat \<Rightarrow> nat \<Rightarrow> real" where
  "ripple_arg frame i = 2 * pi * real frame / 60 + real i * (2/10)"

definition ripple_z :: "nat \<Rightarrow> nat \<Rightarrow> real" where
  "ripple_z frame i = 1/2 + 4/10 * sin (ripple_arg frame i)"

text \<open>
  The three columns \<^verbatim>\<open>Valuation_Norm\<close>, \<^verbatim>\<open>Growth_Norm\<close> and \<^verbatim>\<open>Impact_Norm\<close> that the source
  adds are never read again and are left out. The inner loop of the animation runs over
  \<^verbatim>\<open>unicorn_df.iterrows()\<close>, so its \<open>i\<close> is the row's index label. The figure is built
  after \<^verbatim>\<open>np.random.seed(42)\<close>; the generator state left behind is returned with it.
\<close>

definition ripple_bubbles_figure :: "'g env \<Rightarrow> frame \<Rightarrow> figure \<times> 'g" where
  "ripple_bubbles_figure e unicorn_df =
     (let g2 = np_seed e 42;
          n = nrows unicorn_df;
          (bubble_x, g3) = np_uniform e (Some 0) (Some 1) n g2;
          (bubble_y, g4) = np_uniform e (Some 0) (Some 1) n g3;
          (bubble_z, g5) = np_uniform e (Some 0) (Some 1) n g4;
          bubble_size = map (\<lambda>v. fclip 6 30 (fmul v (Some (7/10)))) (column Valuation unicorn_df);
          bubble_color = column AI_Impact_Score unicorn_df;
          bubble_text = hover_texts unicorn_df;
          anim = map (\<lambda>frame.
                   [Scatter3d bubble_x bubble_y
                      (map (\<lambda>(i, row). Some (ripple_z frame i)) (rows unicorn_df))
                      ''markers'' (Series bubble_size) (Series bubble_color)
                      [] bubble_text ''Unicorn Companies'']) [0..<60]
      in (\<lparr> traces = [Scatter3d bubble_x bubble_y bubble_z ''markers''
                           (Series bubble_size) (Series bubble_color)
                           [] bubble_text ''Unicorn Companies''],
              frames = anim,
              title = ''3D Unicorn Companies Bubble Map'' \<rparr>, g5))"

definition ripple_bubbles_body :: "'g env \<Rightarrow> rec list \<Rightarrow> 'g \<Rightarrow> (error + figure) \<times> 'g" where
  "ripple_bubbles_body e data g =
     (if data = [] then (Inl (ValueError ''No data provided''), g)
      else
        let df0 = downsample e 800 (DataFrame data);
            (unicorn_df, g1) = ensure_impact e (ensure_valuation e (ensure_growth e (df0, g)));
            (fig, g5) = ripple_bubbles_figure e unicorn_df
        in (Inr fig, g5))"

definition create_ripple_bubbles_visualization :: "'g env \<Rightarrow> rec list \<Rightarrow> 'g \<Rightarrow> figure \<times> 'g" where
  "create_ripple_bubbles_visualization e data g =
     try_except ''Error in Ripple Bubbles Visualization'' (ripple_bubbles_body e data g)"

section \<open>Undulating wave (visualizations/undulating\_wave.py)\<close>

text \<open>
  The height expression of the source,
  \<^verbatim>\<open>np.sin(10 * np.sqrt((x - x_min)/(x_max - x_min + 1e-9) ** 2 + (y - y_min)/(y_max - y_min + 1e-9) ** 2))\<close>.
  In Python \<^verbatim>\<open>**\<close> binds tighter than \<^verbatim>\<open>/\<close>: each power applies to the divisor alone.
\<close>

definition wave_height :: "float \<Rightarrow> float \<Rightarrow> float \<Rightarrow> float \<Rightarrow> float \<Rightarrow> float \<Rightarrow> float" where
  "wave_height x_min x_max y_min y_max x y =
     fsin (fmul (Some 10)
       (fsqrt (fadd
          (fdiv (fsub x x_min)
                (lift1 (\<lambda>d. d ^ 2) (fadd (fsub x_max x_min) (Some (1 / 10 ^ 9)))))
          (fdiv (fsub y y_min)
                (lift1 (\<lambda>d. d ^ 2) (fadd (fsub y_max y_min) (Some (1 / 10 ^ 9))))))))"

definition undulating_wave_figure :: "'g env \<Rightarrow> frame \<Rightarrow> figure \<times> 'g" where
  "undulating_wave_figure e df =
     (let x_min = col_min (column Valuation df);
          x_max = col_max (column Valuation df);
          y_min = col_min (column Growth_Rate df);
          y_max = col_max (column Growth_Rate df);
          x_pad = fmul (fsub x_max x_min) (Some (1/10));
          y_pad = fmul (fsub y_max y_min) (Some (1/10));
          x = linspace (fsub x_min x_pad) (fadd x_max x_pad) 50;
          y = linspace (fsub y_min y_pad) (fadd y_max y_pad) 50;
          (x_grid, y_grid) = meshgrid x y;
          z = map (\<lambda>(xs, ys). map (\<lambda>(xv, yv). wave_height x_min x_max y_min y_max xv yv)
                                 (zip xs ys)) (zip x_grid y_grid);
          g2 = np_seed e 42;
          (company_x, g3) = np_uniform e (fsub x_min x_pad) (fadd x_max x_pad) (nrows df) g2;
          (company_y, g4) = np_uniform e (fsub y_min y_pad) (fadd y_max y_pad) (nrows df) g3;
          company_z = map (\<lambda>(xv, yv). wave_height x_min x_max y_min y_max xv yv)
                          (zip company_x company_y)
      in (\<lparr> traces = [Surface (Vec x) (Vec y) z [],
                         Scatter3d company_x company_y company_z ''markers''
                           (Scalar 5) (Colour ''black'') (hover_texts df) [] ''Companies''],
              frames = [],
              title = ''Undulating Wave Surface with Multiple Oscillations'' \<rparr>, g4))"

definition undulating_wave_body :: "'g env \<Rightarrow> rec list \<Rightarrow> 'g \<Rightarrow> (error + figure) \<times> 'g" where
  "undulating_wave_body e data g =
     (if data = [] then (Inl (ValueError ''No data provided''), g)
      else
        let df0 = downsample e 1200 (DataFrame data);
            (df, g1) = ensure_impact e (ensure_valuation e (ensure_growth e (df0, g)));
            (fig, g4) = undulating_wave_figure e df
        in (Inr fig, g4))"

definition create_undulating_wave_visualization :: "'g env \<Rightarrow> rec list \<Rightarrow> 'g \<Rightarrow> figure \<times> 'g" where
  "create_undulating_wave_visualization e data g =
     try_except ''Error in Undulating Wave Visualization'' (undulating_wave_body e data g)"

section \<open>Geolocation spiral (visualizations/geolocation\_bubble.py)\<close>

text \<open>\<^verbatim>\<open>df.sort_values('Valuation ($B)', ascending=True).reset_index(drop=True)\<close>.\<close>

definition sort_by_valuation :: "'g env \<Rightarrow> frame \<Rightarrow> frame" where
  "sort_by_valuation e df =
     (let order = argsort e (column Valuation df)
      in df \<lparr> rows := zip [0..<length order] (map (\<lambda>i. snd (rows df ! i)) order) \<rparr>)"

definition geo_hover :: "frame \<Rightarrow> nat \<Rightarrow> rec \<Rightarrow> frag list" where
  "geo_hover df i r =
     [Lit ''<b>'', company_of df i r, Lit ''</b><br>'',
      Lit ''Valuation: $'', Num1 (Valuation r), Lit ''B<br>'',
      Lit ''AI Impact Score: '', Num1 (AI_Impact_Score r), Lit ''/100<br>'']"

definition geolocation_figure :: "'g env \<Rightarrow> frame \<Rightarrow> figure" where
  "geolocation_figure e df =
     (let df_sorted = sort_by_valuation e df;
          n_points = nrows df_sorted;
          t = linspace (Some 0) (Some (6 * pi)) n_points;
          radius = (\<lambda>i. fadd (Some 2) (fmul (fdiv (fmul (Some (3/10)) (Some (real i)))
                                                 (Some (real n_points))) (Some 8)));
          valuation = column Valuation df_sorted;
          x_coords = map (\<lambda>(i, angle). fmul (radius i) (fcos angle)) (zip [0..<n_points] t);
          y_coords = map (\<lambda>(i, angle). fmul (radius i) (fsin angle)) (zip [0..<n_points] t);
          z_coords = map (\<lambda>(i, v). fadd (fmul (Some (1/2)) (Some (real i)))
                                         (fmul v (Some (1/10))))
                         (zip [0..<n_points] valuation);
          bubble_sizes = map (\<lambda>v. fclip 8 40 (fadd (fmul v (Some (12/10))) (Some 8))) valuation;
          hover_text = map (\<lambda>(i, row). geo_hover df_sorted i row) (rows df_sorted);
          t_smooth = linspace (Some 0) (Some (6 * pi)) 200;
          radius_line = (\<lambda>i. fadd (Some 2) (fmul (fdiv (fmul (Some (3/10)) (Some (real i)))
                                                      (Some 200)) (Some 8)));
          x_line = map (\<lambda>(i, angle). fmul (radius_line i) (fcos angle)) (zip [0..<200] t_smooth);
          y_line = map (\<lambda>(i, angle). fmul (radius_line i) (fsin angle)) (zip [0..<200] t_smooth);
          z_line = map (\<lambda>(i, angle). fmul (fdiv (fmul (Some (1/2)) (Some (real i))) (Some 200))
                                            (Some (real n_points))) (zip [0..<200] t_smooth)
      in \<lparr> traces =
             [Scatter3d x_coords y_coords z_coords ''markers'' (Series bubble_sizes)
                (Series (column AI_Impact_Score df_sorted)) hover_text [] ''AI Startups'',
              Scatter3d x_line y_line z_line ''lines'' Unset Unset [] []
                ''Growth Trajectory''],
           frames = [],
           title = ''3D AI Startup Growth Tsunami<br><sub>Interactive Spiral Visualization of AI Company Valuations & Impact</sub>'' \<rparr>)"

definition geolocation_body :: "'g env \<Rightarrow> rec list \<Rightarrow> 'g \<Rightarrow> (error + figure) \<times> 'g" where
  "geolocation_body e data g =
     (if data = [] then (Inl (ValueError ''No data provided''), g)
      else
        let df0 = downsample e 2000 (DataFrame data);
            (df, g') = ensure_impact e (ensure_valuation e (df0, g))
        in (Inr (geolocation_figure e df), g'))"

definition create_geolocation_visualization :: "'g env \<Rightarrow> rec list \<Rightarrow> 'g \<Rightarrow> figure \<times> 'g" where
  "create_geolocation_visualization e data g =
     try_except ''Error in Spiraling Tsunami Visualization'' (geolocation_body e data g)"

section \<open>Reading a figure\<close>

fun trace_x :: "trace \<Rightarrow> float list" where
  "trace_x (Scatter3d x y z m s c t h n) = x"
| "trace_x (Surface x y z n) = []"

fun trace_y :: "trace \<Rightarrow> float list" where
  "trace_y (Scatter3d x y z m s c t h n) = y"
| "trace_y (Surface x y z n) = []"

fun trace_z :: "trace \<Rightarrow> float list" where
  "trace_z (Scatter3d x y z m s c t h n) = z"
| "trace_z (Surface x y z n) = []"

fun trace_text :: "trace \<Rightarrow> frag list list" where
  "trace_text (Scatter3d x y z m s c t h n) = t"
| "trace_text (Surface x y z n) = []"

fun surface_x :: "trace \<Rightarrow> float list" where
  "surface_x (Surface (Vec x) y z n) = x"
| "surface_x (Surface (Grid x) y z n) = concat x"
| "surface_x (Scatter3d x y z m s c t h n) = []"

fun surface_y :: "trace \<Rightarrow> float list" where
  "surface_y (Surface x (Vec y) z n) = y"
| "surface_y (Surface x (Grid y) z n) = concat y"
| "surface_y (Scatter3d x y z m s c t h n) = []"

fun surface_z :: "trace \<Rightarrow> float list list" where
  "surface_z (Surface x y z n) = z"
| "surface_z (Scatter3d x y z m s c t h n) = []"

section \<open>Notions used in the statements\<close>

text \<open>The three numeric columns are present in the frame.\<close>

definition numeric_columns :: "frame \<Rightarrow> bool" where
  "numeric_columns df =
     (has_column ''Growth Rate (%)'' df \<and> has_column ''Valuation ($B)'' df \<and>
      has_column ''AI Impact Score'' df)"

text \<open>\<^verbatim>\<open>np.random.uniform(lo, hi, n)\<close> returns \<open>n\<close> values.\<close>

definition uniform_total :: "'g env \<Rightarrow> bool" where
  "uniform_total e = (\<forall>lo hi n g. length (fst (np_uniform e lo hi n g)) = n)"

text \<open>\<^verbatim>\<open>sort_values\<close> orders the positions of the rows it is given.\<close>

definition argsort_in_range :: "'g env \<Rightarrow> bool" where
  "argsort_in_range e = (\<forall>keys. \<forall>i\<in>set (argsort e keys). i < length keys)"

text \<open>The index labels of the rows that are left after down-sampling a fresh frame of
  \<open>n\<close> rows to \<open>cap\<close>, in row order.\<close>

definition surviving_labels :: "'g env \<Rightarrow> nat \<Rightarrow> nat \<Rightarrow> nat list" where
  "surviving_labels e cap n = (if n > cap then sample_idx e n cap else [0..<n])"


text \<open>Every node of a grid is a number.\<close>

definition fully_finite :: "float list list \<Rightarrow> bool" where
  "fully_finite zs = list_all (list_all (\<lambda>c. c \<noteq> None)) zs"

text \<open>A record without its \<^verbatim>\<open>Growth Rate (%)\<close> key, and a frame without that column.\<close>

definition without_growth :: "rec \<Rightarrow> rec" where
  "without_growth r = r \<lparr> Growth_Rate := None \<rparr>"

definition strip_growth :: "frame \<Rightarrow> frame" where
  "strip_growth df =
     \<lparr> columns = filter (\<lambda>c. c \<noteq> ''Growth Rate (%)'') (columns df),
       rows = map (\<lambda>(i, r). (i, without_growth r)) (rows df) \<rparr>"

text \<open>
  The height as the specification words it, \<open>sin (10 * sqrt (normX\<^sup>2 + normY\<^sup>2))\<close> with
  \<open>normX = (x - x_min) / (x_max - x_min + 1e-9)\<close> and
  \<open>normY = (y - y_min) / (y_max - y_min + 1e-9)\<close>: the normalised coordinates themselves
  are squared.
\<close>

definition wave_height_spec :: "float \<Rightarrow> float \<Rightarrow> float \<Rightarrow> float \<Rightarrow> float \<Rightarrow> float \<Rightarrow> float" where
  "wave_height_spec x_min x_max y_min y_max x y =
     fsin (fmul (Some 10)
       (fsqrt (fadd
          (lift1 (\<lambda>n. n ^ 2)
             (fdiv (fsub x x_min) (fadd (fsub x_max x_min) (Some (1 / 10 ^ 9)))))
          (lift1 (\<lambda>n. n ^ 2)
             (fdiv (fsub y y_min) (fadd (fsub y_max y_min) (Some (1 / 10 ^ 9))))))))"

section \<open>Instances of the library\<close>

text \<open>
  To run the engines on concrete inputs the library parameters are instantiated: the
  generator state is a counter, a uniform draw steps through the quarters of the
  interval, the sample lists the last \<open>k\<close> positions from the back, the sort is a stable
  insertion sort with NaN last, and the interpolation puts the first number of the
  values on every node.
\<close>

definition demo_uniform :: "float \<Rightarrow> float \<Rightarrow> nat \<Rightarrow> nat \<Rightarrow> float list \<times> nat" where
  "demo_uniform lo hi n g =
     (map (\<lambda>i. fadd lo (fmul (fsub hi lo) (Some (real ((g + i) mod 4) / 4)))) [0..<n], g + n)"

definition demo_argsort :: "float list \<Rightarrow> nat list" where
  "demo_argsort keys =
     map snd (sort_key fst
        (concat (map (\<lambda>(k, i). case k of None \<Rightarrow> [] | Some x \<Rightarrow> [(x, i)])
                     (zip keys [0..<length keys])))) @
     concat (map (\<lambda>(k, i). case k of None \<Rightarrow> [i] | Some x \<Rightarrow> [])
                 (zip keys [0..<length keys]))"

definition demo_griddata ::
  "(float \<times> float) list \<Rightarrow> float list \<Rightarrow> (float \<times> float) list list \<Rightarrow> error + float list list" where
  "demo_griddata points values nodes =
     (case finite_cells values of
        [] \<Rightarrow> Inl (LibraryError ''no values'')
      | v # vs \<Rightarrow> Inr (map (map (\<lambda>p. Some v)) nodes))"

definition demo_env :: "nat env" where
  "demo_env =
     \<lparr> sample_idx = (\<lambda>n k. rev [n - k..<n]),
       argsort = demo_argsort,
       np_uniform = demo_uniform,
       np_seed = (\<lambda>s. s),
       griddata = demo_griddata \<rparr>"

text \<open>
  One more instance of the interpolation: it raises when there are fewer than three
  distinct points to triangulate.
\<close>

definition qhull_griddata ::
  "(float \<times> float) list \<Rightarrow> float list \<Rightarrow> (float \<times> float) list list \<Rightarrow> error + float list list" where
  "qhull_griddata points values nodes =
     (if length (remdups points) < 3 then Inl (LibraryError ''QhullError'')
      else demo_griddata points values nodes)"

definition qhull_env :: "nat env" where
  "qhull_env = demo_env \<lparr> griddata := qhull_griddata \<rparr>"

section \<open>Concrete inputs\<close>

text \<open>Draws of one generator iteration: sector SaaS, status Decacorn, the lowest
  valuation base and a correlation factor of 0.9.\<close>

definition c1_draws :: draws where
  "c1_draws = \<lparr> d_sector = 4, d_country = 0, d_status = 2, d_valuation = 0, d_impact = 0,
       d_growth = 0, d_corr = 1/4, d_jitter = 1/2, d_year = 2015, d_lon = 1/2, d_lat = 1/2 \<rparr>"

definition c1_stream :: "nat \<Rightarrow> draws" where
  "c1_stream i = c1_draws"

text \<open>A record with the four keys the engines read.\<close>

definition mk_rec :: "string \<Rightarrow> real \<Rightarrow> real \<Rightarrow> real \<Rightarrow> rec" where
  "mk_rec name v a g =
     \<lparr> Company = Some name, Valuation = Some v, AI_Impact_Score = Some a, Growth_Rate = Some g,
       Sector = None, Founded_Year = None, Country = None, Status = None,
       longitude = None, latitude = None \<rparr>"

text \<open>Three full records, as a dataset and as a frame.\<close>

definition c3_small :: "rec list" where
  "c3_small = [mk_rec ''A'' 1 50 100, mk_rec ''B'' 2 60 110, mk_rec ''C'' 3 70 120]"

definition c7_frame :: frame where
  "c7_frame = DataFrame c3_small"

text \<open>The three records of \<open>c3_small\<close> with other growth rates, one of them missing.\<close>

definition c10_data :: "rec list" where
  "c10_data = [mk_rec ''A'' 1 50 7, (mk_rec ''B'' 2 60 0) \<lparr> Growth_Rate := None \<rparr>,
               mk_rec ''C'' 3 70 9]"

text \<open>One record without the key \<^verbatim>\<open>Growth Rate (%)\<close>.\<close>

definition c6_data :: "rec list" where
  "c6_data = [(mk_rec ''Acme'' 10 50 0) \<lparr> Growth_Rate := None \<rparr>]"


text \<open>A dataset of 1001 full records; record \<open>i\<close> has growth rate \<open>i\<close>.\<close>

definition c3_data :: "rec list" where
  "c3_data = map (\<lambda>i. mk_rec ''Acme'' 10 50 (real i)) [0..<1001]"

text \<open>Two full records: valuations 1 and 3, growth rates 10 and 30.\<close>

definition c4_data :: "rec list" where
  "c4_data = [mk_rec ''A'' 1 50 10, mk_rec ''B'' 3 60 30]"

text \<open>Two records with the same growth rate 100 and valuation 10 and impact scores 50
  and 75.\<close>

definition c5_data :: "rec list" where
  "c5_data = [mk_rec ''A'' 10 50 100, mk_rec ''B'' 10 75 100]"

section \<open>The synthetic generator and the status floors\<close>












section \<open>Empty input\<close>


text \<open>
  Claim C2. Each of the five layout engines, called on the empty sequence, returns the
  sentinel scene of its \<^verbatim>\<open>except\<close> handler: one marker trace with the single point
  \<open>(0, 0, 0)\<close>. The engines are total functions into figures: the \<^verbatim>\<open>ValueError\<close> raised
  for empty data is caught inside the engine and never reaches the caller.
\<close>

theorem empty_input_gives_sentinel:
  "create_wave_surface_visualization e [] g =
     (error_figure ''Error in Wave Surface Visualization'', g) \<and>
   create_spiral_tunnel_visualization e [] g =
     (error_figure ''Error in Spiral Tunnel Visualization'', g) \<and>
   create_ripple_bubbles_visualization e [] g =
     (error_figure ''Error in Ripple Bubbles Visualization'', g) \<and>
   create_undulating_wave_visualization e [] g =
     (error_figure ''Error in Undulating Wave Visualization'', g) \<and>
   create_geolocation_visualization e [] g =
     (error_figure ''Error in Spiraling Tsunami Visualization'', g) \<and>
   traces (error_figure t) =
     [Scatter3d [Some 0] [Some 0] [Some 0] ''markers'' Unset Unset [] [] []]"
  by (simp add: create_wave_surface_visualization_def wave_surface_body_def
        create_spiral_tunnel_visualization_def spiral_tunnel_body_def
        create_ripple_bubbles_visualization_def ripple_bubbles_body_def
        create_undulating_wave_visualization_def undulating_wave_body_def
        create_geolocation_visualization_def geolocation_body_def
        try_except_def error_figure_def)

text \<open>C2 at the library instance: the sentinel's coordinates.\<close>

theorem empty_input_gives_sentinel_witness:
  "trace_x (hd (traces (fst (create_spiral_tunnel_visualization demo_env [] 0)))) = [Some 0] \<and>
   trace_y (hd (traces (fst (create_spiral_tunnel_visualization demo_env [] 0)))) = [Some 0] \<and>
   trace_z (hd (traces (fst (create_spiral_tunnel_visualization demo_env [] 0)))) = [Some 0] \<and>
   length (traces (fst (create_geolocation_visualization demo_env [] 0))) = 1"
  using empty_input_gives_sentinel [of demo_env 0 "''x''"]
  by (simp add: error_figure_def)

section \<open>Down-sampling\<close>

text \<open>
  Claim C7. Down-sampling to a cap is idempotent: when the frame has more rows than the
  cap, sampling the sampled frame again with the same cap changes nothing, and a frame
  with at most \<open>cap\<close> rows is returned unchanged. The sample is assumed to return
  exactly \<open>cap\<close> rows, as \<^verbatim>\<open>df.sample(n=cap)\<close> does.
\<close>

theorem downsample_idempotent:
  assumes "nrows df > cap \<longrightarrow> length (sample_idx e (nrows df) cap) = cap"
  shows "(nrows df > cap \<longrightarrow> downsample e cap (downsample e cap df) = downsample e cap df) \<and>
         (nrows df \<le> cap \<longrightarrow> downsample e cap df = df)"
  using assms by (simp add: downsample_def sample_def nrows_def)

lemma c7_rows: "nrows c7_frame = 3"
  by (simp add: c7_frame_def c3_small_def DataFrame_def nrows_def)

text \<open>C7 on a frame of three rows, with caps 2 and 5.\<close>

theorem downsample_idempotent_witness:
  "nrows c7_frame > 2 \<and>
   downsample demo_env 2 (downsample demo_env 2 c7_frame) = downsample demo_env 2 c7_frame \<and>
   map fst (rows (downsample demo_env 2 c7_frame)) = [2, 1] \<and>
   nrows c7_frame \<le> 5 \<and> downsample demo_env 5 c7_frame = c7_frame"
proof -
  have a: "nrows c7_frame > 2 \<longrightarrow> length (sample_idx demo_env (nrows c7_frame) 2) = 2"
    by (simp add: c7_rows demo_env_def)
  have a5: "nrows c7_frame > 5 \<longrightarrow> length (sample_idx demo_env (nrows c7_frame) 5) = 5"
    by (simp add: c7_rows)
  have b: "map fst (rows (downsample demo_env 2 c7_frame)) = [2, 1]"
    by (simp add: downsample_def sample_def c7_rows demo_env_def)
       (simp add: c7_frame_def c3_small_def DataFrame_def upt_rec)
  show ?thesis
    using downsample_idempotent [OF a] downsample_idempotent [OF a5] b by (simp add: c7_rows)
qed

section \<open>Frames and columns\<close>

lemma nrows_DataFrame: "nrows (DataFrame data) = length data"
  by (simp add: nrows_def DataFrame_def)

lemma rows_DataFrame_nth: "i < length data \<Longrightarrow> rows (DataFrame data) ! i = (i, data ! i)"
  by (simp add: DataFrame_def)

lemma has_column_DataFrame:
  "has_column c (DataFrame data) = (\<exists>r\<in>set data. c \<in> set (rec_keys r))"
  by (auto simp: has_column_def DataFrame_def)

lemma has_column_downsample: "has_column c (downsample e cap df) = has_column c df"
  by (simp add: has_column_def downsample_def sample_def)

lemma numeric_columns_downsample: "numeric_columns (downsample e cap df) = numeric_columns df"
  by (simp add: numeric_columns_def has_column_downsample)

lemma ensure_present:
  "numeric_columns df \<Longrightarrow>
     ensure_impact e (ensure_valuation e (ensure_growth e (df, g))) = (df, g)"
  by (simp add: numeric_columns_def ensure_impact_def ensure_valuation_def ensure_growth_def)

lemma spiral_tunnel_present:
  assumes "data \<noteq> []" and "numeric_columns (DataFrame data)"
  shows "create_spiral_tunnel_visualization e data g =
           (spiral_tunnel_figure (downsample e 1000 (DataFrame data)), g)"
proof -
  have "numeric_columns (downsample e 1000 (DataFrame data))"
    using assms(2) by (simp add: numeric_columns_downsample)
  then show ?thesis using assms(1)
    by (simp add: create_spiral_tunnel_visualization_def spiral_tunnel_body_def Let_def
          ensure_present try_except_def)
qed

lemma downsample_small: "nrows df \<le> cap \<Longrightarrow> downsample e cap df = df"
  by (simp add: downsample_def)

lemma linspace_length: "length (linspace a b n) = n"
  by (simp add: linspace_def)

lemma linspace_nth:
  assumes "k < n" and "n \<noteq> 1"
  shows "linspace (Some a) (Some b) n ! k = Some (a + real k * ((b - a) / real (n - 1)))"
proof -
  have "real (n - 1) \<noteq> 0" using assms by simp
  then show ?thesis using assms
    by (simp add: linspace_def fadd_def fmul_def fdiv_def fsub_def lift2_def)
qed

lemma fold_min_le: "fold min ys (y::real) \<le> y"
proof (induction ys arbitrary: y)
  case Nil then show ?case by simp
next
  case (Cons a ys)
  have "fold min ys (min a y) \<le> min a y" by (rule Cons.IH)
  then show ?case by simp
qed

lemma fold_max_ge: "(y::real) \<le> fold max ys y"
proof (induction ys arbitrary: y)
  case Nil then show ?case by simp
next
  case (Cons a ys)
  have "max a y \<le> fold max ys (max a y)" by (rule Cons.IH)
  then show ?case by simp
qed

lemma col_min_max_cases:
  "(col_min col = None \<and> col_max col = None) \<or>
   (\<exists>m M. col_min col = Some m \<and> col_max col = Some M \<and> m \<le> M)"
proof (cases "finite_cells col")
  case Nil then show ?thesis by (simp add: col_min_def col_max_def)
next
  case (Cons y ys)
  have "fold min ys y \<le> fold max ys y"
    using fold_min_le [of ys y] fold_max_ge [of y ys] by linarith
  then show ?thesis using Cons by (simp add: col_min_def col_max_def)
qed

lemma finite_cells_Some: "Some v \<in> set col \<Longrightarrow> finite_cells col \<noteq> []"
  by (induction col) (auto simp: finite_cells_def split: option.splits)

lemma normalise_length: "length (normalise col) = length col"
  by (simp add: normalise_def)

lemma normalise_Some:
  assumes "k < length col" and "col ! k = Some v"
  shows "\<exists>w. normalise col ! k = Some w"
proof -
  have "Some v \<in> set col" using assms by (metis nth_mem)
  then have ne: "finite_cells col \<noteq> []" by (rule finite_cells_Some)
  then obtain m M where mM: "col_min col = Some m" "col_max col = Some M" "m \<le> M"
    using col_min_max_cases [of col] by (auto simp: col_min_def split: list.splits)
  have "M - m + 1 / 10 ^ 9 \<noteq> 0" using mM(3) by (simp add: add_nonneg_pos)
  then show ?thesis using assms mM
    by (simp add: normalise_def fdiv_def fsub_def fadd_def lift2_def)
qed


lemma spiral_tunnel_figure_parts:
  "length (traces (spiral_tunnel_figure df)) = 1"
  "trace_z (hd (traces (spiral_tunnel_figure df))) = linspace (Some 0) (Some 100) (nrows df)"
  "trace_x (hd (traces (spiral_tunnel_figure df))) =
     map (\<lambda>(r, t). fmul r (fcos t))
       (zip (map (\<lambda>gn. fadd (Some 40) (fmul (Some 20) gn)) (normalise (column Growth_Rate df)))
            (linspace (Some 0) (Some (6 * 2 * pi)) (nrows df)))"
  "trace_y (hd (traces (spiral_tunnel_figure df))) =
     map (\<lambda>(r, t). fmul r (fsin t))
       (zip (map (\<lambda>gn. fadd (Some 40) (fmul (Some 20) gn)) (normalise (column Growth_Rate df)))
            (linspace (Some 0) (Some (6 * 2 * pi)) (nrows df)))"
  "trace_text (hd (traces (spiral_tunnel_figure df))) = hover_texts df"
  by (simp_all add: spiral_tunnel_figure_def Let_def)

lemma column_length: "length (column f df) = nrows df"
  by (simp add: column_def nrows_def)

lemma spiral_tunnel_xy_Some:
  assumes "k < nrows df" and "column Growth_Rate df ! k = Some v"
  shows "\<exists>a b. trace_x (hd (traces (spiral_tunnel_figure df))) ! k = Some a \<and>
               trace_y (hd (traces (spiral_tunnel_figure df))) ! k = Some b"
proof -
  have k: "k < length (column Growth_Rate df)" using assms(1) by (simp add: column_length)
  obtain w where w: "normalise (column Growth_Rate df) ! k = Some w"
    using normalise_Some [OF k assms(2)] by blast
  obtain t where t: "linspace (Some 0) (Some (6 * 2 * pi)) (nrows df) ! k = Some t"
  proof (cases "nrows df = 1")
    case True then show ?thesis using assms(1) that by (simp add: linspace_def)
  next
    case False then show ?thesis using linspace_nth [OF assms(1) False] that by blast
  qed
  show ?thesis using assms(1) k w t
    by (simp add: spiral_tunnel_figure_parts normalise_length linspace_length column_length
          fadd_def fmul_def fcos_def fsin_def lift1_def lift2_def)
qed

lemma in_optional_key: "(x \<in> set (if c then [] else [s])) = (\<not> c \<and> x = s)"
  by simp

lemma growth_key: "(''Growth Rate (%)'' \<in> set (rec_keys r)) = (Growth_Rate r \<noteq> None)"
  unfolding rec_keys_def by (simp add: in_optional_key split del: if_split)

lemma valuation_key: "(''Valuation ($B)'' \<in> set (rec_keys r)) = (Valuation r \<noteq> None)"
  unfolding rec_keys_def by (simp add: in_optional_key split del: if_split)

lemma impact_key: "(''AI Impact Score'' \<in> set (rec_keys r)) = (AI_Impact_Score r \<noteq> None)"
  unfolding rec_keys_def by (simp add: in_optional_key split del: if_split)

lemma company_key: "(''Company'' \<in> set (rec_keys r)) = (Company r \<noteq> None)"
  unfolding rec_keys_def by (simp add: in_optional_key split del: if_split)

lemma gen_record_numeric:
  "Growth_Rate (gen_record i d) \<noteq> None"
  "Valuation (gen_record i d) \<noteq> None"
  "AI_Impact_Score (gen_record i d) \<noteq> None"
  by (simp_all add: gen_record_def Let_def split: prod.splits)

lemma gen_record_keys:
  "''Growth Rate (%)'' \<in> set (rec_keys (gen_record i d))"
  "''Valuation ($B)'' \<in> set (rec_keys (gen_record i d))"
  "''AI Impact Score'' \<in> set (rec_keys (gen_record i d))"
  by (simp_all add: growth_key valuation_key impact_key gen_record_numeric)

lemma gen_record_growth: "\<exists>v. Growth_Rate (gen_record i d) = Some v"
  by (simp add: gen_record_def Let_def split: prod.splits)

lemma generate_length: "length (generate_large_realistic_dataset n ds) = n"
  by (simp add: generate_large_realistic_dataset_def)

lemma generate_numeric_columns:
  "0 < n \<Longrightarrow> numeric_columns (DataFrame (generate_large_realistic_dataset n ds))"
proof -
  assume "0 < n"
  then have "gen_record 0 (ds 0) \<in> set (generate_large_realistic_dataset n ds)"
    by (auto simp: generate_large_realistic_dataset_def intro!: image_eqI [where x = 0])
  then show ?thesis
    unfolding numeric_columns_def has_column_DataFrame using gen_record_keys by blast
qed

lemma generate_growth_column:
  assumes "k < n"
  shows "\<exists>v. column Growth_Rate (DataFrame (generate_large_realistic_dataset n ds)) ! k = Some v"
  using assms gen_record_growth
  by (simp add: column_def DataFrame_def generate_large_realistic_dataset_def)

section \<open>Generator into spiral tunnel\<close>

text \<open>
  Claim C9. The output of \<open>generate_large_realistic_dataset 100\<close>, for any draws, passed
  to the spiral tunnel layout gives one trace of exactly 100 points: the x, y and z
  lists have length 100, every coordinate is a number, the z values are
  \<open>linspace(0, 100, 100)\<close>, that is \<open>z\<^sub>k = 100 k / 99\<close>, and \<open>0 \<le> z\<^sub>k \<le> 100\<close>.
\<close>

theorem generator_to_spiral_tunnel:
  fixes e :: "'g env"
  defines "fig \<equiv> \<lambda>ds (g::'g).
     fst (create_spiral_tunnel_visualization e (generate_large_realistic_dataset 100 ds) g)"
  shows "length (traces (fig ds g)) = 1 \<and>
         length (trace_x (hd (traces (fig ds g)))) = 100 \<and>
         length (trace_y (hd (traces (fig ds g)))) = 100 \<and>
         length (trace_z (hd (traces (fig ds g)))) = 100 \<and>
         trace_z (hd (traces (fig ds g))) = linspace (Some 0) (Some 100) 100 \<and>
         (\<forall>k<100. \<exists>a b c. trace_x (hd (traces (fig ds g))) ! k = Some a \<and>
                          trace_y (hd (traces (fig ds g))) ! k = Some b \<and>
                          trace_z (hd (traces (fig ds g))) ! k = Some c \<and>
                          c = 100 * real k / 99 \<and> 0 \<le> c \<and> c \<le> 100)"
proof -
  let ?data = "generate_large_realistic_dataset 100 ds"
  let ?df = "DataFrame ?data"
  have ne: "?data \<noteq> []" using generate_length [of 100 ds] by auto
  have n: "nrows ?df = 100" by (simp add: nrows_DataFrame generate_length)
  have f: "fig ds g = spiral_tunnel_figure ?df"
    unfolding fig_def
    by (simp add: spiral_tunnel_present [OF ne generate_numeric_columns] downsample_small n)
  have z: "\<forall>k<100. trace_z (hd (traces (fig ds g))) ! k = Some (100 * real k / 99) \<and>
            0 \<le> 100 * real k / 99 \<and> 100 * real k / 99 \<le> 100"
    unfolding f by (simp add: spiral_tunnel_figure_parts n linspace_nth)
  have xy: "\<forall>k<100. \<exists>a b. trace_x (hd (traces (fig ds g))) ! k = Some a \<and>
                          trace_y (hd (traces (fig ds g))) ! k = Some b"
  proof (intro allI impI)
    fix k :: nat assume k: "k < 100"
    obtain v where "column Growth_Rate ?df ! k = Some v"
      using generate_growth_column [OF k] by blast
    then show "\<exists>a b. trace_x (hd (traces (fig ds g))) ! k = Some a \<and>
                 trace_y (hd (traces (fig ds g))) ! k = Some b"
      unfolding f using spiral_tunnel_xy_Some [of k ?df v] k n by simp
  qed
  have len: "length (traces (fig ds g)) = 1"
    "length (trace_x (hd (traces (fig ds g)))) = 100"
    "length (trace_y (hd (traces (fig ds g)))) = 100"
    "length (trace_z (hd (traces (fig ds g)))) = 100"
    "trace_z (hd (traces (fig ds g))) = linspace (Some 0) (Some 100) 100"
    unfolding f
    by (simp_all add: spiral_tunnel_figure_parts n linspace_length normalise_length column_length)
  show ?thesis
  proof (intro conjI allI impI)
    show "length (traces (fig ds g)) = 1" by (rule len(1))
    show "length (trace_x (hd (traces (fig ds g)))) = 100" by (rule len(2))
    show "length (trace_y (hd (traces (fig ds g)))) = 100" by (rule len(3))
    show "length (trace_z (hd (traces (fig ds g)))) = 100" by (rule len(4))
    show "trace_z (hd (traces (fig ds g))) = linspace (Some 0) (Some 100) 100" by (rule len(5))
    fix k :: nat assume k: "k < 100"
    from xy [rule_format, OF k] obtain a b where
      ab: "trace_x (hd (traces (fig ds g))) ! k = Some a"
          "trace_y (hd (traces (fig ds g))) ! k = Some b" by (elim exE conjE)
    note zk = z [rule_format, OF k]
    show "\<exists>a b c. trace_x (hd (traces (fig ds g))) ! k = Some a \<and>
                          trace_y (hd (traces (fig ds g))) ! k = Some b \<and>
                          trace_z (hd (traces (fig ds g))) ! k = Some c \<and>
                          c = 100 * real k / 99 \<and> 0 \<le> c \<and> c \<le> 100"
      by (intro exI conjI) (rule ab(1) ab(2) zk [THEN conjunct1] refl
            zk [THEN conjunct2, THEN conjunct1] zk [THEN conjunct2, THEN conjunct2])+
  qed
qed

text \<open>C9 at the library instance: the last of the 100 points has \<open>z = 100\<close>.\<close>

theorem generator_to_spiral_tunnel_witness:
  "trace_z (hd (traces (fst (create_spiral_tunnel_visualization demo_env
      (generate_large_realistic_dataset 100 c1_stream) 0)))) ! 99 = Some 100 \<and>
   length (trace_x (hd (traces (fst (create_spiral_tunnel_visualization demo_env
      (generate_large_realistic_dataset 100 c1_stream) 0))))) = 100"
proof -
  let ?T = "hd (traces (fst (create_spiral_tunnel_visualization demo_env
      (generate_large_realistic_dataset 100 c1_stream) 0)))"
  note t = generator_to_spiral_tunnel [of demo_env c1_stream 0]
  have l: "length (trace_x ?T) = 100" by (rule t [THEN conjunct2, THEN conjunct1])
  have q: "\<forall>k<100. \<exists>a b c. trace_x ?T ! k = Some a \<and> trace_y ?T ! k = Some b \<and>
       trace_z ?T ! k = Some c \<and> c = 100 * real k / 99 \<and> 0 \<le> c \<and> c \<le> 100"
    by (rule t [THEN conjunct2, THEN conjunct2, THEN conjunct2, THEN conjunct2, THEN conjunct2])
  have k: "(99::nat) < 100" by simp
  from q [rule_format, OF k] obtain c where
    "trace_z ?T ! 99 = Some c" "c = 100 * real (99::nat) / 99" by (elim exE conjE)
  then have "trace_z ?T ! 99 = Some 100" by simp
  with l show ?thesis by (intro conjI)
qed

section \<open>Reproducible rendering\<close>

lemma ensure_two_present:
  "has_column ''Valuation ($B)'' df \<Longrightarrow> has_column ''AI Impact Score'' df \<Longrightarrow>
     ensure_impact e (ensure_valuation e (df, g)) = (df, g)"
  by (simp add: ensure_impact_def ensure_valuation_def)

lemma wave_surface_state_free:
  assumes "numeric_columns (DataFrame data)"
  shows "fst (create_wave_surface_visualization e data g1) =
         fst (create_wave_surface_visualization e data g2)"
proof -
  have "numeric_columns (downsample e 1500 (DataFrame data))"
    using assms by (simp add: numeric_columns_downsample)
  then show ?thesis
    by (simp add: create_wave_surface_visualization_def wave_surface_body_def Let_def
          ensure_present try_except_def case_prod_beta split: sum.splits)
qed

lemma spiral_tunnel_state_free:
  assumes "numeric_columns (DataFrame data)"
  shows "fst (create_spiral_tunnel_visualization e data g1) =
         fst (create_spiral_tunnel_visualization e data g2)"
proof -
  have "numeric_columns (downsample e 1000 (DataFrame data))"
    using assms by (simp add: numeric_columns_downsample)
  then show ?thesis
    by (simp add: create_spiral_tunnel_visualization_def spiral_tunnel_body_def Let_def
          ensure_present try_except_def)
qed

lemma ripple_bubbles_state_free:
  assumes "numeric_columns (DataFrame data)"
  shows "fst (create_ripple_bubbles_visualization e data g1) =
         fst (create_ripple_bubbles_visualization e data g2)"
proof -
  have "numeric_columns (downsample e 800 (DataFrame data))"
    using assms by (simp add: numeric_columns_downsample)
  then show ?thesis
    by (simp add: create_ripple_bubbles_visualization_def ripple_bubbles_body_def Let_def
          ensure_present try_except_def case_prod_beta)
qed

lemma undulating_wave_state_free:
  assumes "numeric_columns (DataFrame data)"
  shows "fst (create_undulating_wave_visualization e data g1) =
         fst (create_undulating_wave_visualization e data g2)"
proof -
  have "numeric_columns (downsample e 1200 (DataFrame data))"
    using assms by (simp add: numeric_columns_downsample)
  then show ?thesis
    by (simp add: create_undulating_wave_visualization_def undulating_wave_body_def Let_def
          ensure_present try_except_def case_prod_beta)
qed

lemma geolocation_state_free:
  assumes "numeric_columns (DataFrame data)"
  shows "fst (create_geolocation_visualization e data g1) =
         fst (create_geolocation_visualization e data g2)"
proof -
  have "has_column ''Valuation ($B)'' (downsample e 2000 (DataFrame data))"
       "has_column ''AI Impact Score'' (downsample e 2000 (DataFrame data))"
    using assms by (simp_all add: numeric_columns_def has_column_downsample)
  then show ?thesis
    by (simp add: create_geolocation_visualization_def geolocation_body_def Let_def
          ensure_two_present try_except_def)
qed

text \<open>
  Claim C6, as the code has it. For every dataset that is empty or whose three numeric
  columns are present, two calls of the same layout engine give the same figure,
  whatever state the global random generator is in at each call and whatever the
  library computes: the sample is drawn from a fresh generator seeded with 42 and the
  marker positions of ripple bubbles and undulating wave are drawn after
  \<^verbatim>\<open>np.random.seed(42)\<close>.
\<close>

theorem rendering_reproducible:
  assumes "data = [] \<or> numeric_columns (DataFrame data)"
  shows "fst (create_wave_surface_visualization e data g1) =
           fst (create_wave_surface_visualization e data g2) \<and>
         fst (create_spiral_tunnel_visualization e data g1) =
           fst (create_spiral_tunnel_visualization e data g2) \<and>
         fst (create_ripple_bubbles_visualization e data g1) =
           fst (create_ripple_bubbles_visualization e data g2) \<and>
         fst (create_undulating_wave_visualization e data g1) =
           fst (create_undulating_wave_visualization e data g2) \<and>
         fst (create_geolocation_visualization e data g1) =
           fst (create_geolocation_visualization e data g2)"
proof (cases "data = []")
  case True
  then show ?thesis
    by (simp add: create_wave_surface_visualization_def wave_surface_body_def
        create_spiral_tunnel_visualization_def spiral_tunnel_body_def
        create_ripple_bubbles_visualization_def ripple_bubbles_body_def
        create_undulating_wave_visualization_def undulating_wave_body_def
        create_geolocation_visualization_def geolocation_body_def try_except_def)
next
  case False
  then have nc: "numeric_columns (DataFrame data)" using assms by simp
  show ?thesis
    by (intro conjI wave_surface_state_free spiral_tunnel_state_free ripple_bubbles_state_free
          undulating_wave_state_free geolocation_state_free nc)
qed

lemma c7_numeric:
  "numeric_columns (DataFrame [mk_rec ''A'' 1 50 100, mk_rec ''B'' 2 60 110, mk_rec ''C'' 3 70 120])"
  by (simp add: numeric_columns_def has_column_DataFrame growth_key valuation_key impact_key
        mk_rec_def)

text \<open>C6 on three full records, from generator states 0 and 7.\<close>

theorem rendering_reproducible_witness:
  "fst (create_ripple_bubbles_visualization demo_env
          [mk_rec ''A'' 1 50 100, mk_rec ''B'' 2 60 110, mk_rec ''C'' 3 70 120] 0) =
   fst (create_ripple_bubbles_visualization demo_env
          [mk_rec ''A'' 1 50 100, mk_rec ''B'' 2 60 110, mk_rec ''C'' 3 70 120] 7)"
  using rendering_reproducible [OF disjI2, OF c7_numeric, of demo_env 0 7] by (elim conjE)

lemma c6_columns:
  "columns (DataFrame c6_data) = [''Company'', ''Valuation ($B)'', ''AI Impact Score'']"
  by (simp add: DataFrame_def c6_data_def rec_keys_def mk_rec_def)

lemma c6_fill:
  "ensure_impact demo_env (ensure_valuation demo_env (ensure_growth demo_env
     (downsample demo_env 1000 (DataFrame c6_data), g))) =
   (\<lparr> columns = [''Company'', ''Valuation ($B)'', ''AI Impact Score'', ''Growth Rate (%)''],
      rows = [(0, mk_rec ''Acme'' 10 50 (50 + 150 * (real (g mod 4) / 4)))] \<rparr>, g + 1)"
  by (simp add: downsample_def nrows_DataFrame ensure_growth_def ensure_valuation_def
        ensure_impact_def has_column_def c6_columns set_column_def)
     (simp add: DataFrame_def c6_data_def nrows_def demo_env_def demo_uniform_def mk_rec_def
        fadd_def fmul_def fsub_def lift2_def)

lemma c6_run:
  "create_spiral_tunnel_visualization demo_env c6_data g =
   (spiral_tunnel_figure
      \<lparr> columns = [''Company'', ''Valuation ($B)'', ''AI Impact Score'', ''Growth Rate (%)''],
        rows = [(0, mk_rec ''Acme'' 10 50 (50 + 150 * (real (g mod 4) / 4)))] \<rparr>, g + 1)"
  by (simp add: create_spiral_tunnel_visualization_def spiral_tunnel_body_def c6_fill
        try_except_def)
     (simp add: c6_data_def)

lemma c6_text:
  "trace_text (hd (traces (fst (create_spiral_tunnel_visualization demo_env c6_data g)))) =
     [[Lit ''<b>'', Cell (Some ''Acme''), Lit ''</b><br>Valuation: $'', Num (Some 10),
       Lit ''B<br>AI Impact Score: '', Num (Some 50),
       Lit ''<br>Growth Rate: '', Num (Some (50 + 150 * (real (g mod 4) / 4))), Lit ''%'']]"
  by (simp add: c6_run spiral_tunnel_figure_parts hover_texts_def nrows_def hover_def
        company_of_def has_column_def mk_rec_def)

text \<open>
  Counterexample to C6 as stated: a dataset of one record without a growth rate. The
  first call of the spiral tunnel layout, from generator state 0, fills the column from
  the global generator, shows a growth rate of 50 and leaves state 1; the second call
  on the identical input starts from that state and shows 87.5: the two figures differ.
\<close>

theorem rendering_differs_on_missing_column:
  "snd (create_spiral_tunnel_visualization demo_env c6_data 0) = 1 \<and>
   trace_text (hd (traces (fst (create_spiral_tunnel_visualization demo_env c6_data 0)))) ! 0 ! 7
     = Num (Some 50) \<and>
   trace_text (hd (traces (fst (create_spiral_tunnel_visualization demo_env c6_data 1)))) ! 0 ! 7
     = Num (Some (175/2)) \<and>
   fst (create_spiral_tunnel_visualization demo_env c6_data 0) \<noteq>
   fst (create_spiral_tunnel_visualization demo_env c6_data
          (snd (create_spiral_tunnel_visualization demo_env c6_data 0)))"
proof -
  have s: "snd (create_spiral_tunnel_visualization demo_env c6_data 0) = 1"
    by (simp add: c6_run)
  have t0: "trace_text (hd (traces (fst (create_spiral_tunnel_visualization demo_env c6_data 0))))
              ! 0 ! 7 = Num (Some 50)"
    unfolding c6_text by simp
  have t1: "trace_text (hd (traces (fst (create_spiral_tunnel_visualization demo_env c6_data 1))))
              ! 0 ! 7 = Num (Some (175/2))"
    unfolding c6_text by simp
  have "fst (create_spiral_tunnel_visualization demo_env c6_data 0) \<noteq>
        fst (create_spiral_tunnel_visualization demo_env c6_data 1)"
    using t0 t1 by auto
  then show ?thesis using s t0 t1 by simp
qed

section \<open>Row labels\<close>







section \<open>Ripple bubbles animation\<close>









lemma demo_uniform_total: "uniform_total demo_env"
  by (simp add: uniform_total_def demo_env_def demo_uniform_def)






section \<open>Rows behind the points of the spiral tunnel\<close>

lemma downsample_rows:
  assumes "\<forall>i\<in>set (surviving_labels e cap (length data)). i < length data"
  shows "rows (downsample e cap (DataFrame data)) =
           map (\<lambda>i. (i, data ! i)) (surviving_labels e cap (length data))"
proof (cases "length data > cap")
  case True
  then have s: "surviving_labels e cap (length data) = sample_idx e (length data) cap"
    by (simp add: surviving_labels_def)
  have "map (\<lambda>i. rows (DataFrame data) ! i) (sample_idx e (length data) cap) =
        map (\<lambda>i. (i, data ! i)) (sample_idx e (length data) cap)"
    using assms unfolding s by (intro map_cong refl) (simp add: rows_DataFrame_nth)
  then show ?thesis using True
    by (simp add: s downsample_def sample_def nrows_DataFrame)
next
  case False
  then have d: "downsample e cap (DataFrame data) = DataFrame data"
    by (simp add: downsample_def nrows_DataFrame)
  have "zip [0..<length data] data = map (\<lambda>i. (i, data ! i)) [0..<length data]"
    by (rule nth_equalityI) simp_all
  then have r: "rows (DataFrame data) = map (\<lambda>i. (i, data ! i)) [0..<length data]"
    by (simp add: DataFrame_def)
  show ?thesis using False by (simp add: d r surviving_labels_def)
qed

lemma set_column_field:
  assumes "length vs = nrows df" and "\<And>r v. f (upd r v) = f r"
  shows "column f (set_column c upd vs df) = column f df"
proof -
  have "map (\<lambda>(i, r). f r) (map (\<lambda>((i, r), v). (i, upd r v)) (zip (rows df) vs)) =
        map (\<lambda>(i, r). f r) (map fst (zip (rows df) vs))"
    by (simp add: case_prod_beta comp_def assms(2))
  also have "\<dots> = map (\<lambda>(i, r). f r) (rows df)"
    using assms(1) by (simp add: nrows_def)
  finally show ?thesis by (simp add: set_column_def column_def)
qed

lemma has_column_set_column:
  "has_column c' (set_column c upd vs df) = (has_column c' df \<or> c' = c)"
  by (auto simp: has_column_def set_column_def)

lemma set_column_nrows:
  "length vs = nrows df \<Longrightarrow> nrows (set_column c upd vs df) = nrows df"
  by (simp add: set_column_def nrows_def)

lemma ensure_growth_keeps:
  assumes "uniform_total e"
  shows "nrows (fst (ensure_growth e (df, g))) = nrows df"
    and "column Company (fst (ensure_growth e (df, g))) = column Company df"
    and "has_column ''Company'' (fst (ensure_growth e (df, g))) = has_column ''Company'' df"
    and "has_column ''Growth Rate (%)'' df \<Longrightarrow> fst (ensure_growth e (df, g)) = df"
proof -
  have l: "length (fst (np_uniform e (Some 50) (Some 200) (nrows df) g)) = nrows df"
    using assms by (simp add: uniform_total_def)
  show "nrows (fst (ensure_growth e (df, g))) = nrows df"
    by (simp add: ensure_growth_def case_prod_beta set_column_nrows [OF l])
  show "column Company (fst (ensure_growth e (df, g))) = column Company df"
    by (simp add: ensure_growth_def case_prod_beta set_column_field [OF l])
  show "has_column ''Company'' (fst (ensure_growth e (df, g))) = has_column ''Company'' df"
    by (simp add: ensure_growth_def case_prod_beta has_column_set_column)
  show "has_column ''Growth Rate (%)'' df \<Longrightarrow> fst (ensure_growth e (df, g)) = df"
    by (simp add: ensure_growth_def)
qed

lemma ensure_valuation_keeps:
  assumes "uniform_total e"
  shows "nrows (fst (ensure_valuation e (df, g))) = nrows df"
    and "column Company (fst (ensure_valuation e (df, g))) = column Company df"
    and "has_column ''Company'' (fst (ensure_valuation e (df, g))) = has_column ''Company'' df"
    and "column Growth_Rate (fst (ensure_valuation e (df, g))) = column Growth_Rate df"
proof -
  have l: "length (fst (np_uniform e (Some 1) (Some 50) (nrows df) g)) = nrows df"
    using assms by (simp add: uniform_total_def)
  show "nrows (fst (ensure_valuation e (df, g))) = nrows df"
    by (simp add: ensure_valuation_def case_prod_beta set_column_nrows [OF l])
  show "column Company (fst (ensure_valuation e (df, g))) = column Company df"
    by (simp add: ensure_valuation_def case_prod_beta set_column_field [OF l])
  show "has_column ''Company'' (fst (ensure_valuation e (df, g))) = has_column ''Company'' df"
    by (simp add: ensure_valuation_def case_prod_beta has_column_set_column)
  show "column Growth_Rate (fst (ensure_valuation e (df, g))) = column Growth_Rate df"
    by (simp add: ensure_valuation_def case_prod_beta set_column_field [OF l])
qed

lemma ensure_impact_keeps:
  assumes "uniform_total e"
  shows "nrows (fst (ensure_impact e (df, g))) = nrows df"
    and "column Company (fst (ensure_impact e (df, g))) = column Company df"
    and "has_column ''Company'' (fst (ensure_impact e (df, g))) = has_column ''Company'' df"
    and "column Growth_Rate (fst (ensure_impact e (df, g))) = column Growth_Rate df"
proof -
  have l: "length (fst (np_uniform e (Some 20) (Some 90) (nrows df) g)) = nrows df"
    using assms by (simp add: uniform_total_def)
  show "nrows (fst (ensure_impact e (df, g))) = nrows df"
    by (simp add: ensure_impact_def case_prod_beta set_column_nrows [OF l])
  show "column Company (fst (ensure_impact e (df, g))) = column Company df"
    by (simp add: ensure_impact_def case_prod_beta set_column_field [OF l])
  show "has_column ''Company'' (fst (ensure_impact e (df, g))) = has_column ''Company'' df"
    by (simp add: ensure_impact_def case_prod_beta has_column_set_column)
  show "column Growth_Rate (fst (ensure_impact e (df, g))) = column Growth_Rate df"
    by (simp add: ensure_impact_def case_prod_beta set_column_field [OF l])
qed

lemma ensure_all_keeps:
  fixes e :: "'g env" and df :: frame and g :: 'g
  assumes "uniform_total e"
  defines "df' \<equiv> fst (ensure_impact e (ensure_valuation e (ensure_growth e (df, g))))"
  shows "nrows df' = nrows df"
    and "column Company df' = column Company df"
    and "has_column ''Company'' df' = has_column ''Company'' df"
    and "has_column ''Growth Rate (%)'' df \<Longrightarrow> column Growth_Rate df' = column Growth_Rate df"
proof -
  obtain d1 g1 where a: "ensure_growth e (df, g) = (d1, g1)" by (cases "ensure_growth e (df, g)")
  obtain d2 g2 where b: "ensure_valuation e (d1, g1) = (d2, g2)"
    by (cases "ensure_valuation e (d1, g1)")
  have d': "df' = fst (ensure_impact e (d2, g2))" by (simp add: df'_def a b)
  have d2: "d2 = fst (ensure_valuation e (d1, g1))" by (simp add: b)
  have d1: "d1 = fst (ensure_growth e (df, g))" by (simp add: a)
  show "nrows df' = nrows df"
    unfolding d' ensure_impact_keeps(1) [OF assms(1)]
    unfolding d2 ensure_valuation_keeps(1) [OF assms(1)]
    unfolding d1 ensure_growth_keeps(1) [OF assms(1)] by (rule refl)
  show "column Company df' = column Company df"
    unfolding d' ensure_impact_keeps(2) [OF assms(1)]
    unfolding d2 ensure_valuation_keeps(2) [OF assms(1)]
    unfolding d1 ensure_growth_keeps(2) [OF assms(1)] by (rule refl)
  show "has_column ''Company'' df' = has_column ''Company'' df"
    unfolding d' ensure_impact_keeps(3) [OF assms(1)]
    unfolding d2 ensure_valuation_keeps(3) [OF assms(1)]
    unfolding d1 ensure_growth_keeps(3) [OF assms(1)] by (rule refl)
  show "has_column ''Growth Rate (%)'' df \<Longrightarrow> column Growth_Rate df' = column Growth_Rate df"
  proof -
    assume h: "has_column ''Growth Rate (%)'' df"
    have "column Growth_Rate df' = column Growth_Rate d1"
      unfolding d' ensure_impact_keeps(4) [OF assms(1)]
      unfolding d2 ensure_valuation_keeps(4) [OF assms(1)] by (rule refl)
    also have "d1 = df" unfolding d1 by (rule ensure_growth_keeps(4) [OF assms(1) h])
    finally show ?thesis .
  qed
qed


lemma spiral_tunnel_run:
  "data \<noteq> [] \<Longrightarrow>
   fst (create_spiral_tunnel_visualization e data g) =
   spiral_tunnel_figure (fst (ensure_impact e (ensure_valuation e (ensure_growth e
        (downsample e 1000 (DataFrame data), g)))))"
  by (simp add: create_spiral_tunnel_visualization_def spiral_tunnel_body_def Let_def
        try_except_def case_prod_beta)

lemma hover_texts_length: "length (hover_texts df) = nrows df"
  by (simp add: hover_texts_def nrows_def)

lemma hover_texts_nth:
  assumes "k < nrows df"
  shows "hover_texts df ! k ! 1 =
           (if has_column ''Company'' df then Cell (column Company df ! k)
            else Cell (Some (''Company '' @ str_nat k)))"
    and "hover_texts df ! k ! 7 = Num (column Growth_Rate df ! k)"
  using assms
  by (simp_all add: hover_texts_def nrows_def column_def case_prod_beta hover_def company_of_def)

lemma downsample_column:
  assumes "\<forall>i\<in>set (surviving_labels e cap (length data)). i < length data"
  shows "column f (downsample e cap (DataFrame data)) =
           map (\<lambda>i. f (data ! i)) (surviving_labels e cap (length data))"
  by (simp add: column_def downsample_rows [OF assms] comp_def)

lemma downsample_nrows:
  assumes "\<forall>i\<in>set (surviving_labels e cap (length data)). i < length data"
  shows "nrows (downsample e cap (DataFrame data)) = length (surviving_labels e cap (length data))"
  by (simp add: nrows_def downsample_rows [OF assms])

lemma spiral_tunnel_points:
  fixes e :: "'g env" and g :: 'g
  assumes "data \<noteq> []" and "uniform_total e"
      and "\<forall>i\<in>set (surviving_labels e 1000 (length data)). i < length data"
  defines "T \<equiv> hd (traces (fst (create_spiral_tunnel_visualization e data g)))"
      and "src \<equiv> surviving_labels e 1000 (length data)"
  shows "length (traces (fst (create_spiral_tunnel_visualization e data g))) = 1 \<and>
         trace_z T = linspace (Some 0) (Some 100) (length src) \<and>
         length (trace_x T) = length src \<and> length (trace_y T) = length src \<and>
         length (trace_text T) = length src \<and>
         (length data \<le> 1000 \<longrightarrow> src = [0..<length data]) \<and>
         (\<forall>k<length src.
            trace_text T ! k ! 1 =
              (if has_column ''Company'' (DataFrame data) then Cell (Company (data ! (src ! k)))
               else Cell (Some (''Company '' @ str_nat k)))) \<and>
         (has_column ''Growth Rate (%)'' (DataFrame data) \<longrightarrow>
            (\<forall>k<length src.
               trace_text T ! k ! 7 = Num (Growth_Rate (data ! (src ! k))) \<and>
               trace_x T ! k =
                 fmul (fadd (Some 40) (fmul (Some 20)
                        (normalise (map (\<lambda>i. Growth_Rate (data ! i)) src) ! k)))
                      (fcos (linspace (Some 0) (Some (6 * 2 * pi)) (length src) ! k)) \<and>
               trace_y T ! k =
                 fmul (fadd (Some 40) (fmul (Some 20)
                        (normalise (map (\<lambda>i. Growth_Rate (data ! i)) src) ! k)))
                      (fsin (linspace (Some 0) (Some (6 * 2 * pi)) (length src) ! k))))"
proof -
  let ?df0 = "downsample e 1000 (DataFrame data)"
  let ?df = "fst (ensure_impact e (ensure_valuation e (ensure_growth e (?df0, g))))"
  have T: "T = hd (traces (spiral_tunnel_figure ?df))"
    unfolding T_def by (simp add: spiral_tunnel_run [OF assms(1)])
  have n: "nrows ?df = length src"
    unfolding src_def by (simp add: ensure_all_keeps(1) [OF assms(2)] downsample_nrows [OF assms(3)])
  have co: "column Company ?df = map (\<lambda>i. Company (data ! i)) src"
    unfolding src_def
    by (simp add: ensure_all_keeps(2) [OF assms(2)] downsample_column [OF assms(3)])
  have hc: "has_column ''Company'' ?df = has_column ''Company'' (DataFrame data)"
    by (simp add: ensure_all_keeps(3) [OF assms(2)] has_column_downsample)
  have gr: "has_column ''Growth Rate (%)'' (DataFrame data) \<Longrightarrow>
              column Growth_Rate ?df = map (\<lambda>i. Growth_Rate (data ! i)) src"
    unfolding src_def
    by (simp add: ensure_all_keeps(4) [OF assms(2)] has_column_downsample
          downsample_column [OF assms(3)])
  have a: "length (traces (fst (create_spiral_tunnel_visualization e data g))) = 1"
    by (simp add: spiral_tunnel_run [OF assms(1)] spiral_tunnel_figure_parts)
  have b: "trace_z T = linspace (Some 0) (Some 100) (length src)"
    unfolding T by (simp add: spiral_tunnel_figure_parts n)
  have c: "length (trace_x T) = length src" "length (trace_y T) = length src"
    "length (trace_text T) = length src"
    unfolding T
    by (simp_all add: spiral_tunnel_figure_parts n linspace_length normalise_length
          column_length hover_texts_length)
  have d: "length data \<le> 1000 \<longrightarrow> src = [0..<length data]"
    by (simp add: src_def surviving_labels_def)
  have f: "\<forall>k<length src.
            trace_text T ! k ! 1 =
              (if has_column ''Company'' (DataFrame data) then Cell (Company (data ! (src ! k)))
               else Cell (Some (''Company '' @ str_nat k)))"
  proof (intro allI impI)
    fix k assume k: "k < length src"
    then have kn: "k < nrows ?df" by (simp add: n)
    have "trace_text T ! k ! 1 = hover_texts ?df ! k ! 1"
      unfolding T by (simp only: spiral_tunnel_figure_parts)
    also have "\<dots> = (if has_column ''Company'' ?df then Cell (column Company ?df ! k)
            else Cell (Some (''Company '' @ str_nat k)))"
      by (rule hover_texts_nth(1) [OF kn])
    also have "\<dots> = (if has_column ''Company'' (DataFrame data)
            then Cell (Company (data ! (src ! k)))
            else Cell (Some (''Company '' @ str_nat k)))"
      using k by (simp add: hc co)
    finally show "trace_text T ! k ! 1 =
              (if has_column ''Company'' (DataFrame data) then Cell (Company (data ! (src ! k)))
               else Cell (Some (''Company '' @ str_nat k)))" .
  qed
  have h: "has_column ''Growth Rate (%)'' (DataFrame data) \<longrightarrow>
            (\<forall>k<length src.
               trace_text T ! k ! 7 = Num (Growth_Rate (data ! (src ! k))) \<and>
               trace_x T ! k =
                 fmul (fadd (Some 40) (fmul (Some 20)
                        (normalise (map (\<lambda>i. Growth_Rate (data ! i)) src) ! k)))
                      (fcos (linspace (Some 0) (Some (6 * 2 * pi)) (length src) ! k)) \<and>
               trace_y T ! k =
                 fmul (fadd (Some 40) (fmul (Some 20)
                        (normalise (map (\<lambda>i. Growth_Rate (data ! i)) src) ! k)))
                      (fsin (linspace (Some 0) (Some (6 * 2 * pi)) (length src) ! k)))"
  proof (intro allI impI)
    fix k assume hg: "has_column ''Growth Rate (%)'' (DataFrame data)" and k: "k < length src"
    have kn: "k < nrows ?df" using k by (simp add: n)
    have t: "trace_text T ! k ! 7 = Num (Growth_Rate (data ! (src ! k)))"
      unfolding T using k by (simp add: spiral_tunnel_figure_parts hover_texts_nth(2) [OF kn] gr [OF hg])
    have x: "trace_x T ! k =
                 fmul (fadd (Some 40) (fmul (Some 20)
                        (normalise (map (\<lambda>i. Growth_Rate (data ! i)) src) ! k)))
                      (fcos (linspace (Some 0) (Some (6 * 2 * pi)) (length src) ! k))"
      unfolding T using k
      by (simp add: spiral_tunnel_figure_parts n gr [OF hg] normalise_length linspace_length)
    have y: "trace_y T ! k =
                 fmul (fadd (Some 40) (fmul (Some 20)
                        (normalise (map (\<lambda>i. Growth_Rate (data ! i)) src) ! k)))
                      (fsin (linspace (Some 0) (Some (6 * 2 * pi)) (length src) ! k))"
      unfolding T using k
      by (simp add: spiral_tunnel_figure_parts n gr [OF hg] normalise_length linspace_length)
    from t x y show "trace_text T ! k ! 7 = Num (Growth_Rate (data ! (src ! k))) \<and>
               trace_x T ! k =
                 fmul (fadd (Some 40) (fmul (Some 20)
                        (normalise (map (\<lambda>i. Growth_Rate (data ! i)) src) ! k)))
                      (fcos (linspace (Some 0) (Some (6 * 2 * pi)) (length src) ! k)) \<and>
               trace_y T ! k =
                 fmul (fadd (Some 40) (fmul (Some 20)
                        (normalise (map (\<lambda>i. Growth_Rate (data ! i)) src) ! k)))
                      (fsin (linspace (Some 0) (Some (6 * 2 * pi)) (length src) ! k))"
      by (intro conjI)
  qed
  from a b c d f h show ?thesis by (intro conjI)
qed


text \<open>
  Claim C3, as the code has it. For non-empty data the spiral tunnel layout applies no
  sort: its \<open>k\<close>-th point belongs to the \<open>k\<close>-th row of the frame after down-sampling.
  With \<open>src\<close> the input positions of those rows in row order, \<open>z\<close> is
  \<open>linspace(0, 100, length src)\<close>, the hover label of point \<open>k\<close> names the company of
  record \<open>src ! k\<close> and, when the data has a growth rate column, the hover text shows
  the growth rate of record \<open>src ! k\<close> and the radius is \<open>40 + 20 * growth_norm\<close> of that
  record. Up to 1000 records \<open>src\<close> is \<open>0, 1, \<dots>\<close>: input order. Above 1000 records
  \<open>src\<close> is the list of positions in the order in which the seeded sample returns them.
\<close>

theorem spiral_tunnel_point_order:
  fixes e :: "'g env" and g :: 'g
  assumes "data \<noteq> []" and "uniform_total e"
      and "\<forall>i\<in>set (surviving_labels e 1000 (length data)). i < length data"
  defines "T \<equiv> hd (traces (fst (create_spiral_tunnel_visualization e data g)))"
      and "src \<equiv> surviving_labels e 1000 (length data)"
  shows "length (traces (fst (create_spiral_tunnel_visualization e data g))) = 1 \<and>
         trace_z T = linspace (Some 0) (Some 100) (length src) \<and>
         length (trace_x T) = length src \<and> length (trace_y T) = length src \<and>
         length (trace_text T) = length src \<and>
         (length data \<le> 1000 \<longrightarrow> src = [0..<length data]) \<and>
         (\<forall>k<length src.
            trace_text T ! k ! 1 =
              (if has_column ''Company'' (DataFrame data) then Cell (Company (data ! (src ! k)))
               else Cell (Some (''Company '' @ str_nat k)))) \<and>
         (has_column ''Growth Rate (%)'' (DataFrame data) \<longrightarrow>
            (\<forall>k<length src.
               trace_text T ! k ! 7 = Num (Growth_Rate (data ! (src ! k))) \<and>
               trace_x T ! k =
                 fmul (fadd (Some 40) (fmul (Some 20)
                        (normalise (map (\<lambda>i. Growth_Rate (data ! i)) src) ! k)))
                      (fcos (linspace (Some 0) (Some (6 * 2 * pi)) (length src) ! k)) \<and>
               trace_y T ! k =
                 fmul (fadd (Some 40) (fmul (Some 20)
                        (normalise (map (\<lambda>i. Growth_Rate (data ! i)) src) ! k)))
                      (fsin (linspace (Some 0) (Some (6 * 2 * pi)) (length src) ! k))))"
  unfolding T_def src_def by (rule spiral_tunnel_points [OF assms(1-3)])

lemma c3_small_labels: "surviving_labels demo_env 1000 (length c3_small) = [0, 1, 2]"
  by (simp add: surviving_labels_def c3_small_def upt_rec)

lemma c3_small_growth: "has_column ''Growth Rate (%)'' (DataFrame c3_small)"
  using c7_numeric by (simp add: numeric_columns_def c3_small_def)

text \<open>C3 on three records: the third point shows the third record, at \<open>z = 100\<close>.\<close>

theorem spiral_tunnel_point_order_witness:
  "trace_text (hd (traces (fst (create_spiral_tunnel_visualization demo_env c3_small 0)))) ! 2 ! 7
     = Num (Some 120) \<and>
   length (trace_z (hd (traces (fst (create_spiral_tunnel_visualization demo_env c3_small 0)))))
     = 3"
proof -
  have ne: "c3_small \<noteq> []" by (simp add: c3_small_def)
  have r: "\<forall>i\<in>set (surviving_labels demo_env 1000 (length c3_small)). i < length c3_small"
    unfolding c3_small_labels by (simp add: c3_small_def)
  note t = spiral_tunnel_point_order [OF ne demo_uniform_total r, of 0]
  have k: "2 < length (surviving_labels demo_env 1000 (length c3_small))"
    unfolding c3_small_labels by simp
  note h = t [THEN conjunct2, THEN conjunct2, THEN conjunct2, THEN conjunct2, THEN conjunct2,
              THEN conjunct2, THEN conjunct2, rule_format, OF c3_small_growth k]
  have a: "trace_text (hd (traces (fst (create_spiral_tunnel_visualization demo_env c3_small 0))))
             ! 2 ! 7 = Num (Some 120)"
    using h [THEN conjunct1] unfolding c3_small_labels by (simp add: c3_small_def mk_rec_def)
  have b: "length (trace_z (hd (traces (fst (create_spiral_tunnel_visualization demo_env c3_small 0)))))
             = 3"
    using t [THEN conjunct2, THEN conjunct1] unfolding c3_small_labels
    by (simp add: linspace_length)
  from a b show ?thesis by (intro conjI)
qed

lemma c3_length: "length c3_data = 1001"
  by (simp add: c3_data_def)

lemma c3_labels: "surviving_labels demo_env 1000 (length c3_data) = rev [1..<1001]"
  unfolding c3_length by (simp add: surviving_labels_def demo_env_def)

lemma c3_nth: "i < 1001 \<Longrightarrow> c3_data ! i = mk_rec ''Acme'' 10 50 (real i)"
  by (simp add: c3_data_def)

lemma c3_growth: "has_column ''Growth Rate (%)'' (DataFrame c3_data)"
proof -
  have "c3_data ! 0 \<in> set c3_data" by (rule nth_mem) (simp add: c3_length)
  moreover have "Growth_Rate (c3_data ! 0) \<noteq> None" by (simp add: c3_nth mk_rec_def)
  ultimately show ?thesis unfolding has_column_DataFrame growth_key by blast
qed

text \<open>
  Counterexample to C3 as stated: 1001 records, record \<open>i\<close> with growth rate \<open>i\<close>, and a
  sample that lists the drawn rows in an order other than ascending (here the positions
  1000, 999, \<dots>, 1). The first point of the tunnel shows record 1000 and the second
  shows record 999: the later record comes first, and the engine does not put the
  sampled rows back into insertion order.
\<close>

theorem spiral_tunnel_sample_reorders:
  "length c3_data = 1001 \<and>
   sample_idx demo_env 1001 1000 ! 0 = 1000 \<and> sample_idx demo_env 1001 1000 ! 1 = 999 \<and>
   Growth_Rate (c3_data ! 1000) = Some 1000 \<and> Growth_Rate (c3_data ! 999) = Some 999 \<and>
   trace_text (hd (traces (fst (create_spiral_tunnel_visualization demo_env c3_data 0)))) ! 0 ! 7
     = Num (Some 1000) \<and>
   trace_text (hd (traces (fst (create_spiral_tunnel_visualization demo_env c3_data 0)))) ! 1 ! 7
     = Num (Some 999)"
proof -
  have ne: "c3_data \<noteq> []" using c3_length by auto
  have r: "\<forall>i\<in>set (surviving_labels demo_env 1000 (length c3_data)). i < length c3_data"
    unfolding c3_labels by (simp add: c3_length)
  note t = spiral_tunnel_points [OF ne demo_uniform_total r, of 0]
  have s0: "rev [1..<1001] ! 0 = (1000::nat)" by (simp add: rev_nth)
  have s1: "rev [1..<1001] ! 1 = (999::nat)" by (simp add: rev_nth)
  have k0: "0 < length (surviving_labels demo_env 1000 (length c3_data))"
    unfolding c3_labels by simp
  have k1: "1 < length (surviving_labels demo_env 1000 (length c3_data))"
    unfolding c3_labels by simp
  note h = t [THEN conjunct2, THEN conjunct2, THEN conjunct2, THEN conjunct2, THEN conjunct2,
              THEN conjunct2, THEN conjunct2, rule_format, OF c3_growth]
  have g0: "Growth_Rate (c3_data ! 1000) = Some 1000" by (simp add: c3_nth mk_rec_def)
  have g1: "Growth_Rate (c3_data ! 999) = Some 999" by (simp add: c3_nth mk_rec_def)
  have a: "trace_text (hd (traces (fst (create_spiral_tunnel_visualization demo_env c3_data 0))))
             ! 0 ! 7 = Num (Some 1000)"
    using h [OF k0, THEN conjunct1] unfolding c3_labels s0 g0 .
  have b: "trace_text (hd (traces (fst (create_spiral_tunnel_visualization demo_env c3_data 0))))
             ! 1 ! 7 = Num (Some 999)"
    using h [OF k1, THEN conjunct1] unfolding c3_labels s1 g1 .
  have i0: "sample_idx demo_env 1001 1000 ! 0 = 1000" using s0 by (simp add: demo_env_def)
  have i1: "sample_idx demo_env 1001 1000 ! 1 = 999" using s1 by (simp add: demo_env_def)
  from c3_length i0 i1 g0 g1 a b show ?thesis by (intro conjI)
qed

section \<open>Heights of the undulating wave\<close>

lemma undulating_wave_run:
  assumes "data \<noteq> []" and "numeric_columns (DataFrame data)"
  shows "fst (create_undulating_wave_visualization e data g) =
         fst (undulating_wave_figure e (downsample e 1200 (DataFrame data)))"
proof -
  have "numeric_columns (downsample e 1200 (DataFrame data))"
    using assms(2) by (simp add: numeric_columns_downsample)
  then show ?thesis using assms(1)
    by (simp add: create_undulating_wave_visualization_def undulating_wave_body_def Let_def
          ensure_present try_except_def case_prod_beta)
qed

lemma undulating_surface:
  fixes e :: "'g env"
  defines "x_min \<equiv> \<lambda>df. col_min (column Valuation df)"
      and "x_max \<equiv> \<lambda>df. col_max (column Valuation df)"
      and "y_min \<equiv> \<lambda>df. col_min (column Growth_Rate df)"
      and "y_max \<equiv> \<lambda>df. col_max (column Growth_Rate df)"
  defines "xs \<equiv> \<lambda>df. linspace (fsub (x_min df) (fmul (fsub (x_max df) (x_min df)) (Some (1/10))))
                              (fadd (x_max df) (fmul (fsub (x_max df) (x_min df)) (Some (1/10)))) 50"
      and "ys \<equiv> \<lambda>df. linspace (fsub (y_min df) (fmul (fsub (y_max df) (y_min df)) (Some (1/10))))
                              (fadd (y_max df) (fmul (fsub (y_max df) (y_min df)) (Some (1/10)))) 50"
  shows "surface_x (hd (traces (fst (undulating_wave_figure e df)))) = xs df"
    and "surface_y (hd (traces (fst (undulating_wave_figure e df)))) = ys df"
    and "i < 50 \<Longrightarrow> j < 50 \<Longrightarrow>
         surface_z (hd (traces (fst (undulating_wave_figure e df)))) ! j ! i =
           wave_height (x_min df) (x_max df) (y_min df) (y_max df) (xs df ! i) (ys df ! j)"
  by (simp_all add: undulating_wave_figure_def Let_def case_prod_beta meshgrid_def
        linspace_length xs_def ys_def x_min_def x_max_def y_min_def y_max_def)

lemma c4_frame:
  "column Valuation (DataFrame c4_data) = [Some 1, Some 3]"
  "column Growth_Rate (DataFrame c4_data) = [Some 10, Some 30]"
  by (simp_all add: column_def DataFrame_def c4_data_def mk_rec_def upt_rec)

lemma c4_ranges:
  "col_min (column Valuation (DataFrame c4_data)) = Some 1"
  "col_max (column Valuation (DataFrame c4_data)) = Some 3"
  "col_min (column Growth_Rate (DataFrame c4_data)) = Some 10"
  "col_max (column Growth_Rate (DataFrame c4_data)) = Some 30"
  by (simp_all add: c4_frame col_min_def col_max_def finite_cells_def)

lemma c4_numeric: "numeric_columns (DataFrame c4_data)"
  by (simp add: numeric_columns_def has_column_DataFrame growth_key valuation_key impact_key
        mk_rec_def c4_data_def)

lemma c4_run:
  "fst (create_undulating_wave_visualization demo_env c4_data 0) =
   fst (undulating_wave_figure demo_env (DataFrame c4_data))"
proof -
  have ne: "c4_data \<noteq> []" by (simp add: c4_data_def)
  have "nrows (DataFrame c4_data) \<le> 1200" by (simp add: nrows_DataFrame c4_data_def)
  then show ?thesis
    by (simp add: undulating_wave_run [OF ne c4_numeric] downsample_small)
qed

lemma c4_node:
  "linspace (fsub (Some 1) (fmul (fsub (Some 3) (Some 1)) (Some (1/10))))
            (fadd (Some 3) (fmul (fsub (Some 3) (Some 1)) (Some (1/10)))) 50 ! 0 = Some (4/5)"
  "linspace (fsub (Some 10) (fmul (fsub (Some 30) (Some 10)) (Some (1/10))))
            (fadd (Some 30) (fmul (fsub (Some 30) (Some 10)) (Some (1/10)))) 50 ! 0 = Some 8"
  by (simp_all add: fsub_def fadd_def fmul_def lift2_def linspace_nth)

text \<open>
  Claim C4 against the code. For the two records with valuations 1, 3 and growth rates
  10, 30 the padded grid starts at \<open>x = 0.8\<close>, \<open>y = 8\<close>. The source squares the two divisors
  only, so at that node the argument of the square root is
  \<open>(0.8 - 1) / (2 + 1e-9)\<^sup>2 + (8 - 10) / (20 + 1e-9)\<^sup>2 < 0\<close> and the height is NaN, where the
  stated formula \<open>sin (10 * sqrt (normX\<^sup>2 + normY\<^sup>2))\<close> gives a number.
\<close>

theorem undulating_height_not_normalised:
  "surface_x (hd (traces (fst (create_undulating_wave_visualization demo_env c4_data 0)))) ! 0
     = Some (4/5) \<and>
   surface_y (hd (traces (fst (create_undulating_wave_visualization demo_env c4_data 0)))) ! 0
     = Some 8 \<and>
   surface_z (hd (traces (fst (create_undulating_wave_visualization demo_env c4_data 0)))) ! 0 ! 0
     = None \<and>
   wave_height (Some 1) (Some 3) (Some 10) (Some 30) (Some (4/5)) (Some 8) = None \<and>
   wave_height_spec (Some 1) (Some 3) (Some 10) (Some 30) (Some (4/5)) (Some 8) \<noteq> None"
proof -
  have x: "surface_x (hd (traces (fst (create_undulating_wave_visualization demo_env c4_data 0))))
             ! 0 = Some (4/5)"
    unfolding c4_run undulating_surface(1) c4_ranges by (rule c4_node(1))
  have y: "surface_y (hd (traces (fst (create_undulating_wave_visualization demo_env c4_data 0))))
             ! 0 = Some 8"
    unfolding c4_run undulating_surface(2) c4_ranges by (rule c4_node(2))
  have w: "wave_height (Some 1) (Some 3) (Some 10) (Some 30) (Some (4/5)) (Some 8) = None"
    by (simp add: wave_height_def fsin_def fmul_def fsqrt_def fadd_def fdiv_def fsub_def
          lift1_def lift2_def power2_eq_square)
  have i: "(0::nat) < 50" by simp
  have z: "surface_z (hd (traces (fst (create_undulating_wave_visualization demo_env c4_data 0))))
             ! 0 ! 0 = None"
    unfolding c4_run undulating_surface(3) [OF i i] c4_ranges c4_node by (rule w)
  have s: "wave_height_spec (Some 1) (Some 3) (Some 10) (Some 30) (Some (4/5)) (Some 8) \<noteq> None"
    by (simp add: wave_height_spec_def fsin_def fmul_def fsqrt_def fadd_def fdiv_def fsub_def
          lift1_def lift2_def power2_eq_square)
  from x y z w s show ?thesis by (intro conjI)
qed

section \<open>The geolocation spiral does not read the growth rate\<close>

lemma filter_optional_key:
  "filter P (if c then [] else [s]) = (if c \<or> \<not> P s then [] else [s])"
  by simp

lemma rec_keys_without_growth:
  "rec_keys (without_growth r) = filter (\<lambda>c. c \<noteq> ''Growth Rate (%)'') (rec_keys r)"
  unfolding rec_keys_def without_growth_def
  by (simp add: filter_optional_key split del: if_split)

lemma DataFrame_without_growth:
  "DataFrame (map without_growth data) = strip_growth (DataFrame data)"
proof -
  have "concat (map (rec_keys \<circ> without_growth) data) =
        filter (\<lambda>c. c \<noteq> ''Growth Rate (%)'') (concat (map rec_keys data))"
    by (induction data) (simp_all add: rec_keys_without_growth)
  moreover have "zip [0..<length data] (map without_growth data) =
        map (\<lambda>(i, r). (i, without_growth r)) (zip [0..<length data] data)"
    by (simp add: zip_map2 case_prod_beta)
  ultimately show ?thesis
    by (simp add: DataFrame_def strip_growth_def remdups_filter)
qed

lemma strip_growth_simps:
  "nrows (strip_growth df) = nrows df"
  "column Valuation (strip_growth df) = column Valuation df"
  "column AI_Impact_Score (strip_growth df) = column AI_Impact_Score df"
  "has_column ''Company'' (strip_growth df) = has_column ''Company'' df"
  "has_column ''Valuation ($B)'' (strip_growth df) = has_column ''Valuation ($B)'' df"
  "has_column ''AI Impact Score'' (strip_growth df) = has_column ''AI Impact Score'' df"
  by (simp_all add: strip_growth_def nrows_def column_def has_column_def case_prod_beta
        without_growth_def comp_def)

lemma strip_growth_nth:
  "i < nrows df \<Longrightarrow> rows (strip_growth df) ! i = (fst (rows df ! i), without_growth (snd (rows df ! i)))"
  by (simp add: strip_growth_def nrows_def case_prod_beta)

lemma downsample_strip_growth:
  assumes "nrows df > cap \<longrightarrow> (\<forall>i\<in>set (sample_idx e (nrows df) cap). i < nrows df)"
  shows "downsample e cap (strip_growth df) = strip_growth (downsample e cap df)"
proof (cases "nrows df > cap")
  case True
  have "map (\<lambda>i. rows (strip_growth df) ! i) (sample_idx e (nrows df) cap) =
        map (\<lambda>i. (fst (rows df ! i), without_growth (snd (rows df ! i))))
            (sample_idx e (nrows df) cap)"
    using assms True by (intro map_cong refl) (simp add: strip_growth_nth)
  then show ?thesis using True
    by (simp add: downsample_def sample_def strip_growth_simps(1))
       (simp add: strip_growth_def case_prod_beta comp_def)
next
  case False
  then show ?thesis by (simp add: downsample_def strip_growth_simps(1))
qed

lemma set_column_strip_growth:
  assumes "c \<noteq> ''Growth Rate (%)''"
      and "\<And>r v. without_growth (upd r v) = upd (without_growth r) v"
  shows "set_column c upd vs (strip_growth df) = strip_growth (set_column c upd vs df)"
  using assms(1)
  by (simp add: set_column_def strip_growth_def zip_map1 case_prod_beta comp_def assms(2))

lemma ensure_valuation_strip_growth:
  "ensure_valuation e (strip_growth df, g) =
     (strip_growth (fst (ensure_valuation e (df, g))), snd (ensure_valuation e (df, g)))"
  by (simp add: ensure_valuation_def strip_growth_simps case_prod_beta
        set_column_strip_growth without_growth_def)

lemma ensure_impact_strip_growth:
  "ensure_impact e (strip_growth df, g) =
     (strip_growth (fst (ensure_impact e (df, g))), snd (ensure_impact e (df, g)))"
  by (simp add: ensure_impact_def strip_growth_simps case_prod_beta
        set_column_strip_growth without_growth_def)

lemma sort_by_valuation_strip_growth:
  assumes "argsort_in_range e"
  shows "sort_by_valuation e (strip_growth df) = strip_growth (sort_by_valuation e df)"
proof -
  let ?order = "argsort e (column Valuation df)"
  have "\<forall>i\<in>set ?order. i < length (column Valuation df)"
    using assms unfolding argsort_in_range_def by blast
  then have r: "\<forall>i\<in>set ?order. i < nrows df"
    by (simp add: column_length)
  have m: "map (\<lambda>i. snd (rows (strip_growth df) ! i)) ?order =
        map (\<lambda>i. without_growth (snd (rows df ! i))) ?order"
    using r by (intro map_cong refl) (simp add: strip_growth_nth)
  have lhs: "sort_by_valuation e (strip_growth df) =
      (strip_growth df) \<lparr> rows := zip [0..<length ?order]
         (map (\<lambda>i. without_growth (snd (rows df ! i))) ?order) \<rparr>"
    by (simp only: sort_by_valuation_def Let_def strip_growth_simps(2) m)
  have rhs: "strip_growth (sort_by_valuation e df) =
      (strip_growth df) \<lparr> rows := zip [0..<length ?order]
         (map (\<lambda>i. without_growth (snd (rows df ! i))) ?order) \<rparr>"
    by (simp add: sort_by_valuation_def Let_def strip_growth_def zip_map2 case_prod_beta comp_def)
  show ?thesis by (simp only: lhs rhs)
qed

lemma geo_hover_strip_growth:
  "geo_hover (strip_growth df) i (without_growth r) = geo_hover df i r"
  by (simp add: geo_hover_def company_of_def strip_growth_simps without_growth_def)

lemma geolocation_figure_strip_growth:
  assumes "argsort_in_range e"
  shows "geolocation_figure e (strip_growth df) = geolocation_figure e df"
proof -
  let ?s = "sort_by_valuation e df"
  have h: "map (\<lambda>(i, row). geo_hover (strip_growth ?s) i row) (rows (strip_growth ?s)) =
           map (\<lambda>(i, row). geo_hover ?s i row) (rows ?s)"
    by (simp add: strip_growth_def [of ?s, THEN arg_cong, of rows] case_prod_beta comp_def
          geo_hover_strip_growth)
  show ?thesis
    unfolding geolocation_figure_def sort_by_valuation_strip_growth [OF assms] Let_def
      strip_growth_simps h ..
qed


lemma geolocation_body_without_growth:
  assumes "argsort_in_range e"
      and "length data > 2000 \<longrightarrow> (\<forall>i\<in>set (sample_idx e (length data) 2000). i < length data)"
  shows "geolocation_body e (map without_growth data) g = geolocation_body e data g"
proof (cases "data = []")
  case True
  then show ?thesis by (simp add: geolocation_body_def)
next
  case False
  have d: "downsample e 2000 (strip_growth (DataFrame data)) =
           strip_growth (downsample e 2000 (DataFrame data))"
    by (rule downsample_strip_growth) (use assms(2) in \<open>simp add: nrows_DataFrame\<close>)
  show ?thesis using False
    by (simp add: geolocation_body_def DataFrame_without_growth d Let_def case_prod_beta
          ensure_valuation_strip_growth ensure_impact_strip_growth
          geolocation_figure_strip_growth [OF assms(1)])
qed

text \<open>
  Claim C10. Two datasets that agree on every field of every record except
  \<^verbatim>\<open>Growth Rate (%)\<close> (so they have equal length) give the same geolocation figure, and
  leave the same generator state: the engine never reads that field. The library is
  assumed to return row positions that exist: the sample positions below the number of
  rows, the sort positions below the number of keys.
\<close>

theorem geolocation_ignores_growth:
  assumes "map without_growth d1 = map without_growth d2"
      and "argsort_in_range e"
      and "\<forall>i\<in>set (surviving_labels e 2000 (length d1)). i < length d1"
  shows "create_geolocation_visualization e d1 g = create_geolocation_visualization e d2 g"
proof -
  have l: "length d1 = length d2"
    by (rule map_eq_imp_length_eq [OF assms(1)])
  have s1: "length d1 > 2000 \<longrightarrow> (\<forall>i\<in>set (sample_idx e (length d1) 2000). i < length d1)"
  proof
    assume "length d1 > 2000"
    then have eq: "surviving_labels e 2000 (length d1) = sample_idx e (length d1) 2000"
      unfolding surviving_labels_def by (rule if_P)
    from assms(3) [unfolded eq]
    show "\<forall>i\<in>set (sample_idx e (length d1) 2000). i < length d1" .
  qed
  have s2: "length d2 > 2000 \<longrightarrow> (\<forall>i\<in>set (sample_idx e (length d2) 2000). i < length d2)"
    using s1 unfolding l .
  have b1: "geolocation_body e d1 g = geolocation_body e (map without_growth d1) g"
    by (rule geolocation_body_without_growth [OF assms(2) s1, symmetric])
  have b2: "geolocation_body e (map without_growth d2) g = geolocation_body e d2 g"
    by (rule geolocation_body_without_growth [OF assms(2) s2])
  have "geolocation_body e d1 g = geolocation_body e d2 g"
    using b1 b2 assms(1) by (rule_tac trans [OF b1]) (erule ssubst, rule b2)
  then show ?thesis unfolding create_geolocation_visualization_def by (rule arg_cong)
qed

lemma demo_argsort_in_range: "argsort_in_range demo_env"
  by (auto simp: argsort_in_range_def demo_env_def demo_argsort_def
        split: option.splits dest: set_zip_rightD)

text \<open>C10 on two datasets of three records that differ in their growth rates only.\<close>

theorem geolocation_ignores_growth_witness:
  "create_geolocation_visualization demo_env c3_small 0 =
   create_geolocation_visualization demo_env c10_data 0"
proof -
  have a: "map without_growth c3_small = map without_growth c10_data"
    by (simp add: c3_small_def c10_data_def without_growth_def mk_rec_def)
  have r: "\<forall>i\<in>set (surviving_labels demo_env 2000 (length c3_small)). i < length c3_small"
    by (simp add: surviving_labels_def c3_small_def)
  show ?thesis by (rule geolocation_ignores_growth [OF a demo_argsort_in_range r])
qed

section \<open>Wave surface on coincident records\<close>

lemma fill_nan_finite: "fully_finite (fill_nan (Some m) zs)"
  by (simp add: fully_finite_def fill_nan_def list_all_iff split: option.splits)

lemma nanmean_cases:
  "finite_cells (concat zs) = [] \<Longrightarrow> nanmean zs = None"
  "finite_cells (concat zs) \<noteq> [] \<Longrightarrow> \<exists>m. nanmean zs = Some m"
  by (simp_all add: nanmean_def split: list.splits)

lemma wave_surface_run:
  assumes "data \<noteq> []" and "numeric_columns (DataFrame data)"
  shows "fst (create_wave_surface_visualization e data g) =
         (case wave_surface_figure e (downsample e 1500 (DataFrame data)) of
            Inl err \<Rightarrow> error_figure ''Error in Wave Surface Visualization''
          | Inr fig \<Rightarrow> fig)"
proof -
  have "numeric_columns (downsample e 1500 (DataFrame data))"
    using assms(2) by (simp add: numeric_columns_downsample)
  then show ?thesis using assms(1)
    by (simp add: create_wave_surface_visualization_def wave_surface_body_def Let_def
          ensure_present try_except_def split: sum.splits)
qed

lemma wave_surface_figure_cases:
  fixes e :: "'g env"
  defines "call \<equiv> \<lambda>df. griddata e (zip (column Growth_Rate df) (column Valuation df))
                          (column AI_Impact_Score df)
                          (grid_nodes (fst (wave_grid df)) (snd (wave_grid df)))"
  shows "call df = Inl err \<Longrightarrow> wave_surface_figure e df = Inl err"
    and "call df = Inr ZI \<Longrightarrow>
         \<exists>fig. wave_surface_figure e df = Inr fig \<and> length (traces fig) = 2 \<and>
           surface_z (hd (traces fig)) =
             fill_nan (nanmean (add_wave_effect ZI (grid_nodes (fst (wave_grid df)) (snd (wave_grid df)))))
               (add_wave_effect ZI (grid_nodes (fst (wave_grid df)) (snd (wave_grid df))))"
  by (simp_all add: wave_surface_figure_def Let_def case_prod_beta call_def)

lemma pair_columns:
  assumes "Growth_Rate r1 = Some gr" and "Growth_Rate r2 = Some gr"
      and "Valuation r1 = Some v" and "Valuation r2 = Some v"
      and "AI_Impact_Score r1 = Some a1" and "AI_Impact_Score r2 = Some a2"
  shows "column Growth_Rate (DataFrame [r1, r2]) = [Some gr, Some gr]"
    and "column Valuation (DataFrame [r1, r2]) = [Some v, Some v]"
    and "column AI_Impact_Score (DataFrame [r1, r2]) = [Some a1, Some a2]"
  using assms by (simp_all add: column_def DataFrame_def upt_rec)

lemma linspace_constant: "linspace (Some a) (Some a) 100 = replicate 100 (Some a)"
  by (simp add: linspace_def fadd_def fmul_def fdiv_def fsub_def lift2_def map_replicate_const)

lemma col_min_max_pair: "col_min [Some a, Some a] = Some a" "col_max [Some a, Some a] = Some a"
  by (simp_all add: col_min_def col_max_def finite_cells_def)

lemma pair_grid:
  assumes "column Growth_Rate df = [Some gr, Some gr]"
      and "column Valuation df = [Some v, Some v]"
  shows "wave_grid df =
     (replicate 100 (replicate 100 (Some gr)), replicate 100 (replicate 100 (Some v)))"
  by (simp add: wave_grid_def assms col_min_max_pair Let_def linspace_constant meshgrid_def
        map_replicate_const)

lemma pair_nodes:
  assumes "column Growth_Rate df = [Some gr, Some gr]"
      and "column Valuation df = [Some v, Some v]"
  shows "grid_nodes (fst (wave_grid df)) (snd (wave_grid df)) =
           replicate 100 (replicate 100 (Some gr, Some v))"
  by (simp add: pair_grid [OF assms] grid_nodes_def)

lemma pair_numeric:
  assumes "Growth_Rate r1 = Some gr" and "Valuation r1 = Some v"
      and "AI_Impact_Score r1 = Some a1"
  shows "numeric_columns (DataFrame [r1, r2])"
  using assms
  by (simp add: numeric_columns_def has_column_DataFrame growth_key valuation_key impact_key)

lemma pair_run:
  assumes "numeric_columns (DataFrame [r1, r2])"
  shows "fst (create_wave_surface_visualization e [r1, r2] g) =
     (case wave_surface_figure e (DataFrame [r1, r2]) of
        Inl err \<Rightarrow> error_figure ''Error in Wave Surface Visualization''
      | Inr fig \<Rightarrow> fig)"
proof -
  have ne: "[r1, r2] \<noteq> []" by simp
  have "nrows (DataFrame [r1, r2]) \<le> 1500" by (simp add: nrows_DataFrame)
  then show ?thesis
    by (simp add: wave_surface_run [OF ne assms] downsample_small)
qed

lemma pair_normalise: "normalise [Some gr, Some gr] = [Some 0, Some 0]"
  by (simp add: normalise_def col_min_max_pair fdiv_def fsub_def fadd_def lift2_def)

text \<open>
  Claim C5, as the code has it. For every dataset of two records with the same growth
  rate and the same valuation, whatever their impact scores and other fields, the
  normalisation divides by \<open>max - min + 1e-9 = 1e-9\<close>, not by zero: both normalised
  growth rates are \<open>0\<close>. The engine hands the two coincident points, the two impact
  scores and a mesh whose 100 by 100 nodes all lie on that point to the interpolation
  and, whatever that does, returns a figure. If the interpolation raises, the figure is
  the error scene, without a surface. If it returns a grid, the surface is that grid plus
  the wave effect with every NaN node replaced by the mean of the numbers: fully finite
  when there is a number among the nodes.
\<close>

theorem wave_surface_coincident_records:
  fixes e :: "'g env" and g :: 'g
  assumes "Growth_Rate r1 = Some gr" and "Growth_Rate r2 = Some gr"
      and "Valuation r1 = Some v" and "Valuation r2 = Some v"
      and "AI_Impact_Score r1 = Some a1" and "AI_Impact_Score r2 = Some a2"
  defines "fig \<equiv> fst (create_wave_surface_visualization e [r1, r2] g)"
      and "points \<equiv> [(Some gr, Some v), (Some gr, Some v)]"
      and "vals \<equiv> [Some a1, Some a2]"
      and "nodes \<equiv> replicate 100 (replicate 100 (Some gr, Some v))"
  shows "normalise (column Growth_Rate (DataFrame [r1, r2])) = [Some 0, Some 0] \<and>
         (\<forall>err. griddata e points vals nodes = Inl err \<longrightarrow>
            fig = error_figure ''Error in Wave Surface Visualization'') \<and>
         (\<forall>ZI. griddata e points vals nodes = Inr ZI \<longrightarrow>
            length (traces fig) = 2 \<and>
            surface_z (hd (traces fig)) =
              fill_nan (nanmean (add_wave_effect ZI nodes)) (add_wave_effect ZI nodes) \<and>
            (finite_cells (concat (add_wave_effect ZI nodes)) \<noteq> [] \<longrightarrow>
               fully_finite (surface_z (hd (traces fig)))))"
proof (intro conjI allI impI)
  let ?df = "DataFrame [r1, r2]"
  note cols = pair_columns [OF assms(1-6)]
  have call: "griddata e (zip (column Growth_Rate ?df) (column Valuation ?df))
                (column AI_Impact_Score ?df)
                (grid_nodes (fst (wave_grid ?df)) (snd (wave_grid ?df))) =
              griddata e points vals nodes"
    unfolding pair_nodes [OF cols(1,2)] unfolding cols points_def vals_def nodes_def by simp
  have nodes: "grid_nodes (fst (wave_grid ?df)) (snd (wave_grid ?df)) = nodes"
    unfolding nodes_def by (rule pair_nodes [OF cols(1,2)])
  have run: "fig = (case wave_surface_figure e ?df of
        Inl err \<Rightarrow> error_figure ''Error in Wave Surface Visualization''
      | Inr fig \<Rightarrow> fig)"
    unfolding fig_def by (rule pair_run [OF pair_numeric [OF assms(1,3,5)]])
  show "normalise (column Growth_Rate ?df) = [Some 0, Some 0]"
    unfolding cols by (rule pair_normalise)
  { fix err assume "griddata e points vals nodes = Inl err"
    then have "wave_surface_figure e ?df = Inl err"
      by (intro wave_surface_figure_cases(1)) (simp only: call)
    then show "fig = error_figure ''Error in Wave Surface Visualization''"
      by (simp add: run) }
  fix ZI assume "griddata e points vals nodes = Inr ZI"
  then have "griddata e (zip (column Growth_Rate ?df) (column Valuation ?df))
                (column AI_Impact_Score ?df)
                (grid_nodes (fst (wave_grid ?df)) (snd (wave_grid ?df))) = Inr ZI"
    by (simp only: call)
  from wave_surface_figure_cases(2) [OF this] obtain fg where
    f: "wave_surface_figure e ?df = Inr fg" "length (traces fg) = 2"
       "surface_z (hd (traces fg)) =
          fill_nan (nanmean (add_wave_effect ZI nodes)) (add_wave_effect ZI nodes)"
    unfolding nodes by blast
  have fg: "fig = fg" by (simp add: run f(1))
  show "length (traces fig) = 2" unfolding fg by (rule f(2))
  show z: "surface_z (hd (traces fig)) =
        fill_nan (nanmean (add_wave_effect ZI nodes)) (add_wave_effect ZI nodes)"
    unfolding fg by (rule f(3))
  { assume "finite_cells (concat (add_wave_effect ZI nodes)) \<noteq> []"
    then obtain m where "nanmean (add_wave_effect ZI nodes) = Some m"
      using nanmean_cases(2) by blast
    then show "fully_finite (surface_z (hd (traces fig)))"
      unfolding z by (simp only: fill_nan_finite) }
qed

lemma add_wave_effect_constant:
  "add_wave_effect (replicate n (replicate m z)) (replicate n (replicate m p)) =
     replicate n (replicate m (wave_effect z p))"
  by (simp add: add_wave_effect_def)

lemma c5_fields:
  "Growth_Rate (c5_data ! 0) = Some 100" "Growth_Rate (c5_data ! 1) = Some 100"
  "Valuation (c5_data ! 0) = Some 10" "Valuation (c5_data ! 1) = Some 10"
  "AI_Impact_Score (c5_data ! 0) = Some 50" "AI_Impact_Score (c5_data ! 1) = Some 75"
  by (simp_all add: c5_data_def mk_rec_def)

lemma c5_pair: "c5_data = [c5_data ! 0, c5_data ! 1]"
  by (simp add: c5_data_def)

lemma c5_demo_call:
  "griddata demo_env [(Some 100, Some 10), (Some 100, Some 10)] [Some 50, Some 75]
     (replicate 100 (replicate 100 (Some 100, Some 10))) =
   Inr (replicate 100 (replicate 100 (Some 50)))"
  by (simp add: demo_env_def demo_griddata_def finite_cells_def)

text \<open>
  C5 at the two records of the claim (growth rate 100, valuation 10, impact scores 50
  and 75) and the library instance whose interpolation returns the first value on every
  node: the surface is fully finite.
\<close>

theorem wave_surface_coincident_records_witness:
  "fully_finite (surface_z (hd (traces (fst (create_wave_surface_visualization demo_env c5_data 0)))))
   \<and> length (traces (fst (create_wave_surface_visualization demo_env c5_data 0))) = 2"
proof -
  let ?ZI = "replicate 100 (replicate 100 (Some (50::real)))"
  let ?nodes = "replicate 100 (replicate 100 (Some (100::real), Some (10::real)))"
  note t = wave_surface_coincident_records [OF c5_fields, of demo_env 0, THEN conjunct2,
              THEN conjunct2, rule_format, OF c5_demo_call, folded c5_pair]
  have "wave_effect (Some 50) (Some 100, Some 10) \<noteq> None"
    by (simp add: wave_effect_def fadd_def fmul_def fsin_def fcos_def lift1_def lift2_def)
  then obtain w where w: "wave_effect (Some 50) (Some 100, Some 10) = Some w" by blast
  have "Some w \<in> set (concat (add_wave_effect ?ZI ?nodes))"
    unfolding add_wave_effect_constant w by simp
  then have "finite_cells (concat (add_wave_effect ?ZI ?nodes)) \<noteq> []"
    by (rule finite_cells_Some)
  with t show ?thesis by blast
qed

lemma c5_qhull_call:
  "griddata qhull_env [(Some 100, Some 10), (Some 100, Some 10)] [Some 50, Some 75] nodes =
     Inl (LibraryError ''QhullError'')"
  by (simp add: qhull_env_def qhull_griddata_def)

lemma c5_qhull_run:
  "fst (create_wave_surface_visualization qhull_env c5_data 0) =
     error_figure ''Error in Wave Surface Visualization''"
proof -
  let ?df = "DataFrame c5_data"
  have cols: "column Growth_Rate ?df = [Some 100, Some 100]"
    "column Valuation ?df = [Some 10, Some 10]" "column AI_Impact_Score ?df = [Some 50, Some 75]"
    by (simp_all add: column_def DataFrame_def c5_data_def mk_rec_def upt_rec)
  have "griddata qhull_env (zip (column Growth_Rate ?df) (column Valuation ?df))
          (column AI_Impact_Score ?df)
          (grid_nodes (fst (wave_grid ?df)) (snd (wave_grid ?df))) =
        Inl (LibraryError ''QhullError'')"
    unfolding cols by (simp add: c5_qhull_call)
  then have "wave_surface_figure qhull_env ?df = Inl (LibraryError ''QhullError'')"
    by (rule wave_surface_figure_cases(1))
  moreover have "numeric_columns ?df"
    by (simp add: numeric_columns_def has_column_DataFrame growth_key valuation_key impact_key
          mk_rec_def c5_data_def)
  ultimately show ?thesis
    using pair_run [of "c5_data ! 0" "c5_data ! 1" qhull_env 0, folded c5_pair] by simp
qed

text \<open>
  Counterexample to C5 as stated, for the two records of the claim. The interpolation
  cannot triangulate two coincident points; with an interpolation that raises on fewer
  than three distinct points the engine returns the error scene, a single marker at the
  origin: the output holds no surface grid at all.
\<close>

theorem wave_surface_coincident_not_finite:
  "fst (create_wave_surface_visualization qhull_env c5_data 0) =
     error_figure ''Error in Wave Surface Visualization'' \<and>
   traces (fst (create_wave_surface_visualization qhull_env c5_data 0)) =
     [Scatter3d [Some 0] [Some 0] [Some 0] ''markers'' Unset Unset [] [] []] \<and>
   surface_z (hd (traces (fst (create_wave_surface_visualization qhull_env c5_data 0)))) = []"
  unfolding c5_qhull_run by (simp add: error_figure_def)

end
